theory Spec2Isabelle
  imports Complex_Main
begin

section \<open>Data model (lib/supabase.ts, migration 20250607032402)\<close>

text \<open>
  Identifiers are the store's \<open>uuid\<close> values. They are opaque to the application, which
  only copies and compares them, and the store draws a fresh one for every inserted row
  (\<open>DEFAULT gen_random_uuid()\<close>); here they are natural numbers and the store hands
  them out from a counter. Quantities are integers. Prices and totals (\<open>decimal(10,2)\<close>
  columns, \<open>number\<close> in the client) are rationals: amounts are computed exactly,
  without the client's floating-point error and the store's rounding to two decimals.
  The \<open>created_at\<close> columns and the descriptive product columns (description, image,
  category, age range) are read by no operation below and are left out of the rows.
\<close>

type_synonym uuid = nat

datatype order_status = pending | confirmed | shipped | delivered | cancelled

record products_row =
  products_id :: uuid
  products_name :: string
  products_price :: rat
  products_stock_quantity :: int

record cart_items_row =
  cart_items_id :: uuid
  cart_items_user_id :: uuid
  cart_items_product_id :: uuid
  cart_items_quantity :: int

record orders_row =
  orders_id :: uuid
  orders_user_id :: uuid
  orders_total_amount :: rat
  orders_status :: order_status

record order_items_row =
  order_items_id :: uuid
  order_items_order_id :: uuid
  order_items_product_id :: uuid
  order_items_quantity :: int
  order_items_price :: rat

datatype table = Categories | Products | Cart_items | Orders | Order_items

datatype command = SELECT | INSERT | UPDATE | DELETE

datatype role = anon | authenticated

text \<open>
  The remote store: one list of rows per table, in insertion order, the next fresh
  identifier, and the requests it has received so far (every request is recorded, whether
  it succeeds or not).
\<close>

record store =
  products :: "products_row list"
  cart_items :: "cart_items_row list"
  orders :: "orders_row list"
  order_items :: "order_items_row list"
  next_uuid :: uuid
  received :: "(table \<times> command) list"

subsection \<open>Row level security (migration, lines 99-167)\<close>

text \<open>
  The three expressions the policies use: \<open>true\<close>, \<open>auth.uid() = user_id\<close>, and
  \<open>EXISTS (SELECT 1 FROM orders WHERE orders.id = order_items.order_id AND
  orders.user_id = auth.uid())\<close>.
\<close>

datatype policy_expr = Always | Uid_is_user_id | Exists_own_order

record policy =
  policy_name :: string
  policy_table :: table
  policy_command :: command
  policy_roles :: "role list"
  policy_expr :: policy_expr

definition policies :: "policy list" where
  "policies =
   [\<lparr>policy_name = ''Categories are viewable by everyone'', policy_table = Categories,
      policy_command = SELECT, policy_roles = [anon, authenticated], policy_expr = Always\<rparr>,
    \<lparr>policy_name = ''Products are viewable by everyone'', policy_table = Products,
      policy_command = SELECT, policy_roles = [anon, authenticated], policy_expr = Always\<rparr>,
    \<lparr>policy_name = ''Users can view own cart items'', policy_table = Cart_items,
      policy_command = SELECT, policy_roles = [authenticated], policy_expr = Uid_is_user_id\<rparr>,
    \<lparr>policy_name = ''Users can insert own cart items'', policy_table = Cart_items,
      policy_command = INSERT, policy_roles = [authenticated], policy_expr = Uid_is_user_id\<rparr>,
    \<lparr>policy_name = ''Users can update own cart items'', policy_table = Cart_items,
      policy_command = UPDATE, policy_roles = [authenticated], policy_expr = Uid_is_user_id\<rparr>,
    \<lparr>policy_name = ''Users can delete own cart items'', policy_table = Cart_items,
      policy_command = DELETE, policy_roles = [authenticated], policy_expr = Uid_is_user_id\<rparr>,
    \<lparr>policy_name = ''Users can view own orders'', policy_table = Orders,
      policy_command = SELECT, policy_roles = [authenticated], policy_expr = Uid_is_user_id\<rparr>,
    \<lparr>policy_name = ''Users can create own orders'', policy_table = Orders,
      policy_command = INSERT, policy_roles = [authenticated], policy_expr = Uid_is_user_id\<rparr>,
    \<lparr>policy_name = ''Users can view own order items'', policy_table = Order_items,
      policy_command = SELECT, policy_roles = [authenticated], policy_expr = Exists_own_order\<rparr>,
    \<lparr>policy_name = ''Users can create order items for own orders'', policy_table = Order_items,
      policy_command = INSERT, policy_roles = [authenticated], policy_expr = Exists_own_order\<rparr>]"

datatype row =
    Products_row products_row
  | Cart_items_row cart_items_row
  | Orders_row orders_row
  | Order_items_row order_items_row

fun table_of :: "row \<Rightarrow> table" where
  "table_of (Products_row r) = Products"
| "table_of (Cart_items_row r) = Cart_items"
| "table_of (Orders_row r) = Orders"
| "table_of (Order_items_row r) = Order_items"

text \<open>
  \<open>auth.uid()\<close> is the identity of the session that sends the request, \<open>None\<close> (SQL
  \<open>NULL\<close>, equal to nothing) when nobody is signed in; the session's role follows it.
\<close>

definition role_of :: "uuid option \<Rightarrow> role" where
  "role_of uid = (case uid of None \<Rightarrow> anon | Some u \<Rightarrow> authenticated)"

fun policy_holds :: "store \<Rightarrow> uuid option \<Rightarrow> policy_expr \<Rightarrow> row \<Rightarrow> bool" where
  "policy_holds st uid Always r = True"
| "policy_holds st uid Uid_is_user_id (Cart_items_row r) = (uid = Some (cart_items_user_id r))"
| "policy_holds st uid Uid_is_user_id (Orders_row r) = (uid = Some (orders_user_id r))"
| "policy_holds st uid Uid_is_user_id r = False"
| "policy_holds st uid Exists_own_order (Order_items_row r) =
     list_ex (\<lambda>ord. orders_id ord = order_items_order_id r \<and> Some (orders_user_id ord) = uid)
       (orders st)"
| "policy_holds st uid Exists_own_order r = False"

text \<open>
  Row level security is enabled on every table, so a command on a row is let through
  only when some policy for that table, command and role holds of the row.
\<close>

definition permitted :: "store \<Rightarrow> uuid option \<Rightarrow> command \<Rightarrow> row \<Rightarrow> bool" where
  "permitted st uid cmd r =
     list_ex (\<lambda>p. policy_table p = table_of r \<and> policy_command p = cmd \<and>
                  role_of uid \<in> set (policy_roles p) \<and>
                  policy_holds st uid (policy_expr p) r) policies"

subsection \<open>Requests to the store\<close>

text \<open>
  A request answers \<open>{data, error}\<close>: here \<open>Inl\<close> the error, \<open>Inr\<close> the data. Besides
  what the policies and the uniqueness constraint decide, any request may fail for
  reasons outside the program (the network, the store itself, a foreign key that no
  longer resolves); \<open>faults\<close> says which requests do.
  \<open>TypeError\<close> is the JavaScript error of reading a property of \<open>null\<close>. The last four
  errors are those the cart operations raise.
\<close>

datatype error =
    TypeError
  | Request_failed
  | Policy_violation
  | Unique_violation
  | No_identity
  | LoadError
  | InvalidQuantityError
  | NotFoundError

type_synonym faults = "table \<Rightarrow> command \<Rightarrow> bool"

definition request :: "table \<Rightarrow> command \<Rightarrow> store \<Rightarrow> store" where
  "request t c st = st\<lparr>received := received st @ [(t, c)]\<rparr>"

text \<open>
  \<open>from('orders').insert([{user_id, total_amount, status}]).select().single()\<close>:
  the new row is checked against the INSERT policy, and against the SELECT policy since
  it is returned.
\<close>

definition insert_orders ::
  "faults \<Rightarrow> uuid option \<Rightarrow> uuid \<times> rat \<times> order_status \<Rightarrow> store \<Rightarrow> (error + orders_row) \<times> store" where
  "insert_orders fl uid new st =
     (let st1 = request Orders INSERT st;
          r = \<lparr>orders_id = next_uuid st, orders_user_id = fst new,
               orders_total_amount = fst (snd new), orders_status = snd (snd new)\<rparr>
      in if fl Orders INSERT then (Inl Request_failed, st1)
         else if \<not> (permitted st uid INSERT (Orders_row r) \<and> permitted st uid SELECT (Orders_row r))
         then (Inl Policy_violation, st1)
         else (Inr r, st1\<lparr>orders := orders st @ [r], next_uuid := next_uuid st + 1\<rparr>))"

text \<open>
  \<open>from('order_items').insert(rows)\<close>, each row \<open>{order_id, product_id, quantity, price}\<close>:
  one statement, so either every row is inserted or none is.
\<close>

definition insert_order_items ::
  "faults \<Rightarrow> uuid option \<Rightarrow> (uuid \<times> uuid \<times> int \<times> rat) list \<Rightarrow> store \<Rightarrow> (error + unit) \<times> store" where
  "insert_order_items fl uid news st =
     (let st1 = request Order_items INSERT st;
          rs = map (\<lambda>(i, oid, pid, q, p).
                 \<lparr>order_items_id = i, order_items_order_id = oid, order_items_product_id = pid,
                  order_items_quantity = q, order_items_price = p\<rparr>)
                 (enumerate (next_uuid st) news)
      in if fl Order_items INSERT then (Inl Request_failed, st1)
         else if \<not> list_all (\<lambda>r. permitted st uid INSERT (Order_items_row r)) rs
         then (Inl Policy_violation, st1)
         else (Inr (), st1\<lparr>order_items := order_items st @ rs,
                            next_uuid := next_uuid st + length rs\<rparr>))"

text \<open>
  \<open>from(t).delete()\<close> with a filter removes the rows that match the filter and that a
  DELETE policy lets the session delete; the others stay, without an error.
  \<open>from(t).update(patch)\<close> likewise changes the matching rows an UPDATE policy covers.
\<close>

definition delete_cart_items ::
  "faults \<Rightarrow> uuid option \<Rightarrow> (cart_items_row \<Rightarrow> bool) \<Rightarrow> store \<Rightarrow> (error + unit) \<times> store" where
  "delete_cart_items fl uid cond st =
     (let st1 = request Cart_items DELETE st
      in if fl Cart_items DELETE then (Inl Request_failed, st1)
         else (Inr (), st1\<lparr>cart_items :=
                 filter (\<lambda>r. \<not> (cond r \<and> permitted st uid DELETE (Cart_items_row r)))
                   (cart_items st)\<rparr>))"

definition delete_orders ::
  "faults \<Rightarrow> uuid option \<Rightarrow> (orders_row \<Rightarrow> bool) \<Rightarrow> store \<Rightarrow> (error + unit) \<times> store" where
  "delete_orders fl uid cond st =
     (let st1 = request Orders DELETE st
      in if fl Orders DELETE then (Inl Request_failed, st1)
         else (Inr (), st1\<lparr>orders :=
                 filter (\<lambda>r. \<not> (cond r \<and> permitted st uid DELETE (Orders_row r)))
                   (orders st)\<rparr>))"

definition update_orders ::
  "faults \<Rightarrow> uuid option \<Rightarrow> (orders_row \<Rightarrow> bool) \<Rightarrow> (orders_row \<Rightarrow> orders_row) \<Rightarrow> store
     \<Rightarrow> (error + unit) \<times> store" where
  "update_orders fl uid cond patch st =
     (let st1 = request Orders UPDATE st
      in if fl Orders UPDATE then (Inl Request_failed, st1)
         else (Inr (), st1\<lparr>orders :=
                 map (\<lambda>r. if cond r \<and> permitted st uid UPDATE (Orders_row r) then patch r else r)
                   (orders st)\<rparr>))"

definition delete_order_items ::
  "faults \<Rightarrow> uuid option \<Rightarrow> (order_items_row \<Rightarrow> bool) \<Rightarrow> store \<Rightarrow> (error + unit) \<times> store" where
  "delete_order_items fl uid cond st =
     (let st1 = request Order_items DELETE st
      in if fl Order_items DELETE then (Inl Request_failed, st1)
         else (Inr (), st1\<lparr>order_items :=
                 filter (\<lambda>r. \<not> (cond r \<and> permitted st uid DELETE (Order_items_row r)))
                   (order_items st)\<rparr>))"

definition update_order_items ::
  "faults \<Rightarrow> uuid option \<Rightarrow> (order_items_row \<Rightarrow> bool) \<Rightarrow> (order_items_row \<Rightarrow> order_items_row)
     \<Rightarrow> store \<Rightarrow> (error + unit) \<times> store" where
  "update_order_items fl uid cond patch st =
     (let st1 = request Order_items UPDATE st
      in if fl Order_items UPDATE then (Inl Request_failed, st1)
         else (Inr (), st1\<lparr>order_items :=
                 map (\<lambda>r. if cond r \<and> permitted st uid UPDATE (Order_items_row r) then patch r
                          else r)
                   (order_items st)\<rparr>))"

text \<open>
  The requests on \<open>cart_items\<close>. A select returns the matching rows the SELECT policy
  shows to the session. An insert of \<open>{user_id, product_id, quantity}\<close> is refused by
  the constraint \<open>UNIQUE(user_id, product_id)\<close> (migration, line 77) when the pair is
  already there. An update sets the quantity of the matching rows.
\<close>

definition select_cart_items ::
  "faults \<Rightarrow> uuid option \<Rightarrow> (cart_items_row \<Rightarrow> bool) \<Rightarrow> store
     \<Rightarrow> (error + cart_items_row list) \<times> store" where
  "select_cart_items fl uid cond st =
     (let st1 = request Cart_items SELECT st
      in if fl Cart_items SELECT then (Inl Request_failed, st1)
         else (Inr (filter (\<lambda>r. cond r \<and> permitted st uid SELECT (Cart_items_row r))
                      (cart_items st)), st1))"

definition insert_cart_items ::
  "faults \<Rightarrow> uuid option \<Rightarrow> uuid \<times> uuid \<times> int \<Rightarrow> store \<Rightarrow> (error + unit) \<times> store" where
  "insert_cart_items fl uid new st =
     (let st1 = request Cart_items INSERT st;
          r = \<lparr>cart_items_id = next_uuid st, cart_items_user_id = fst new,
               cart_items_product_id = fst (snd new), cart_items_quantity = snd (snd new)\<rparr>
      in if fl Cart_items INSERT then (Inl Request_failed, st1)
         else if \<not> permitted st uid INSERT (Cart_items_row r) then (Inl Policy_violation, st1)
         else if list_ex (\<lambda>x. cart_items_user_id x = cart_items_user_id r \<and>
                              cart_items_product_id x = cart_items_product_id r) (cart_items st)
         then (Inl Unique_violation, st1)
         else (Inr (), st1\<lparr>cart_items := cart_items st @ [r], next_uuid := next_uuid st + 1\<rparr>))"

definition update_cart_items ::
  "faults \<Rightarrow> uuid option \<Rightarrow> (cart_items_row \<Rightarrow> bool) \<Rightarrow> int \<Rightarrow> store \<Rightarrow> (error + unit) \<times> store" where
  "update_cart_items fl uid cond q st =
     (let st1 = request Cart_items UPDATE st
      in if fl Cart_items UPDATE then (Inl Request_failed, st1)
         else (Inr (), st1\<lparr>cart_items :=
                 map (\<lambda>r. if cond r \<and> permitted st uid UPDATE (Cart_items_row r)
                          then r\<lparr>cart_items_quantity := q\<rparr> else r)
                   (cart_items st)\<rparr>))"

text \<open>
  Modelled from the spec: a change of a product's live price. No source of this
  repository writes to \<open>products\<close>; spec 3 has the products "created/updated by
  catalog management (out of scope)", and spec 4.2 speaks of "subsequent product price
  changes". The change sets the price column of the product's row.
\<close>

definition set_product_price :: "uuid \<Rightarrow> rat \<Rightarrow> store \<Rightarrow> store" where
  "set_product_price pid v st =
     st\<lparr>products := map (\<lambda>p. if products_id p = pid then p\<lparr>products_price := v\<rparr> else p)
                       (products st)\<rparr>"

text \<open>The requests sent between two states of the application.\<close>

definition sent_between :: "store \<Rightarrow> store \<Rightarrow> (table \<times> command) list" where
  "sent_between st st' = drop (length (received st)) (received st')"

text \<open>
  The identifier the store draws next is fresh: no order line refers to it yet
  (\<open>order_items.order_id\<close> references \<open>orders(id)\<close>, and no order has it).
\<close>

definition next_uuid_unused :: "store \<Rightarrow> bool" where
  "next_uuid_unused st =
     list_all (\<lambda>r. order_items_order_id r \<noteq> next_uuid st) (order_items st)"

text \<open>
  The sum over the lines of an order of quantity times recorded price.
\<close>

definition order_lines_total :: "store \<Rightarrow> uuid \<Rightarrow> rat" where
  "order_lines_total st oid =
     sum_list (map (\<lambda>r. of_int (order_items_quantity r) * order_items_price r)
       (filter (\<lambda>r. order_items_order_id r = oid) (order_items st)))"

section \<open>The application state\<close>

text \<open>
  What the cart screen reads from \<open>useCart()\<close> and \<open>useAuth()\<close>: a cart item is a
  \<open>cart_items\<close> row joined with its product (\<open>item.id\<close>, \<open>item.product_id\<close>,
  \<open>item.quantity\<close>, \<open>item.product\<close>).
\<close>

record cart_item =
  item_id :: uuid
  product_id :: uuid
  quantity :: int
  product :: products_row

record cart_context =
  items :: "cart_item list"
  totalItems :: int
  totalPrice :: rat
  loading :: bool

record app =
  user :: "uuid option"
  cart :: cart_context
  store :: store

section \<open>Cart engine (contexts/CartContext)\<close>

text \<open>
  The cart engine, \<open>useCart\<close> of contexts/CartContext, is not among the sources; only
  its callers are. Its operations are modelled from spec 4.1 and 6, each on the requests
  of the store above.
\<close>

text \<open>
  Modelled from the spec: the derived aggregates of contexts/CartContext. Spec 4.1:
  \<open>totalItems\<close> is the sum of the quantities, \<open>totalPrice\<close> the sum of quantity times
  product price over all lines.
\<close>

definition cart_of :: "cart_item list \<Rightarrow> cart_context" where
  "cart_of its =
     \<lparr>items = its,
      totalItems = sum_list (map quantity its),
      totalPrice = sum_list (map (\<lambda>i. of_int (quantity i) * products_price (product i)) its),
      loading = False\<rparr>"

text \<open>
  Modelled from the spec: the join of contexts/CartContext's \<open>loadCart\<close>. Spec 4.1:
  the CartLine rows "joined with Product data"; a row is joined with the product its
  \<open>product_id\<close> refers to.
\<close>

definition join_products :: "store \<Rightarrow> cart_items_row list \<Rightarrow> cart_item list" where
  "join_products st rs =
     List.map_filter
       (\<lambda>r. map_option
               (\<lambda>p. \<lparr>item_id = cart_items_id r, product_id = cart_items_product_id r,
                      quantity = cart_items_quantity r, product = p\<rparr>)
               (find (\<lambda>p. products_id p = cart_items_product_id r) (products st)))
       rs"

text \<open>
  Modelled from the spec: \<open>loadCart\<close> of contexts/CartContext. Spec 4.1: fetch all
  CartLine rows for the current user, joined with Product data; fails with a
  \<open>LoadError\<close> if the store is unreachable or the identity is absent; on success
  replaces the in-memory cart wholesale.
\<close>

definition loadCart :: "faults \<Rightarrow> app \<Rightarrow> (error + unit) \<times> app" where
  "loadCart fl s =
     (case user s of
        None \<Rightarrow> (Inl LoadError, s)
      | Some u \<Rightarrow>
          (case select_cart_items fl (Some u) (\<lambda>r. cart_items_user_id r = u) (store s) of
             (Inl e, st) \<Rightarrow> (Inl LoadError, s\<lparr>store := st\<rparr>)
           | (Inr rs, st) \<Rightarrow> (Inr (), s\<lparr>store := st, cart := cart_of (join_products st rs)\<rparr>)))"

text \<open>
  Modelled from the spec: the end of every mutation of contexts/CartContext. Spec 4.1:
  persists the change to the store, then refreshes in-memory state from the persisted
  result; on failure the in-memory state remains unchanged and the error is surfaced to
  the caller.
\<close>

definition refresh_after :: "faults \<Rightarrow> (error + unit) \<times> store \<Rightarrow> app \<Rightarrow> (error + unit) \<times> app" where
  "refresh_after fl res s =
     (case res of
        (Inl e, st) \<Rightarrow> (Inl e, s\<lparr>store := st\<rparr>)
      | (Inr _, st) \<Rightarrow> loadCart fl (s\<lparr>store := st\<rparr>))"

text \<open>
  Modelled from the spec: \<open>addToCart\<close> of contexts/CartContext. Spec 4.1: the quantity
  must be a positive integer, rejected with \<open>InvalidQuantityError\<close> otherwise; if a
  CartLine for (user, productId) exists, increments its quantity by the argument; else
  creates a new CartLine with that quantity. Spec 6: absence of an identity is a
  precondition failure.
\<close>

definition addToCart :: "faults \<Rightarrow> uuid \<Rightarrow> int \<Rightarrow> app \<Rightarrow> (error + unit) \<times> app" where
  "addToCart fl productId qty s =
     (case user s of
        None \<Rightarrow> (Inl No_identity, s)
      | Some u \<Rightarrow>
          if qty \<le> 0 then (Inl InvalidQuantityError, s)
          else (case select_cart_items fl (Some u)
                       (\<lambda>r. cart_items_user_id r = u \<and> cart_items_product_id r = productId)
                       (store s) of
                  (Inl e, st) \<Rightarrow> (Inl e, s\<lparr>store := st\<rparr>)
                | (Inr [], st) \<Rightarrow>
                    refresh_after fl (insert_cart_items fl (Some u) (u, productId, qty) st) s
                | (Inr (r # _), st) \<Rightarrow>
                    refresh_after fl
                      (update_cart_items fl (Some u)
                         (\<lambda>x. cart_items_user_id x = u \<and> cart_items_product_id x = productId)
                         (cart_items_quantity r + qty) st) s))"

text \<open>
  Modelled from the spec: \<open>removeFromCart\<close> of contexts/CartContext. Spec 4.1: deletes
  the CartLine for (user, productId) if present; no-op, not an error, if absent.
\<close>

definition removeFromCart :: "faults \<Rightarrow> uuid \<Rightarrow> app \<Rightarrow> (error + unit) \<times> app" where
  "removeFromCart fl productId s =
     (case user s of
        None \<Rightarrow> (Inl No_identity, s)
      | Some u \<Rightarrow>
          refresh_after fl
            (delete_cart_items fl (Some u)
               (\<lambda>r. cart_items_user_id r = u \<and> cart_items_product_id r = productId) (store s)) s)"

text \<open>
  Modelled from the spec: \<open>updateQuantity\<close> of contexts/CartContext. Spec 4.1: if
  \<open>newQuantity <= 0\<close>, this is \<open>removeFromCart(productId)\<close>; otherwise updates the
  existing CartLine's quantity, and fails with \<open>NotFoundError\<close> if no CartLine exists
  for that product.
\<close>

definition updateQuantity :: "faults \<Rightarrow> uuid \<Rightarrow> int \<Rightarrow> app \<Rightarrow> (error + unit) \<times> app" where
  "updateQuantity fl productId newQuantity s =
     (if newQuantity \<le> 0 then removeFromCart fl productId s
      else (case user s of
              None \<Rightarrow> (Inl No_identity, s)
            | Some u \<Rightarrow>
                (case select_cart_items fl (Some u)
                        (\<lambda>r. cart_items_user_id r = u \<and> cart_items_product_id r = productId)
                        (store s) of
                   (Inl e, st) \<Rightarrow> (Inl e, s\<lparr>store := st\<rparr>)
                 | (Inr [], st) \<Rightarrow> (Inl NotFoundError, s\<lparr>store := st\<rparr>)
                 | (Inr (r # _), st) \<Rightarrow>
                     refresh_after fl
                       (update_cart_items fl (Some u)
                          (\<lambda>x. cart_items_user_id x = u \<and> cart_items_product_id x = productId)
                          newQuantity st) s)))"

text \<open>A sequence of \<open>addToCart\<close> calls for one product, each awaited before the next.\<close>

fun addToCart_all :: "faults \<Rightarrow> uuid \<Rightarrow> int list \<Rightarrow> app \<Rightarrow> (error + unit) \<times> app" where
  "addToCart_all fl productId [] s = (Inr (), s)"
| "addToCart_all fl productId (q # qs) s =
     (case addToCart fl productId q s of
        (Inl e, s') \<Rightarrow> (Inl e, s')
      | (Inr _, s') \<Rightarrow> addToCart_all fl productId qs s')"

text \<open>
  The lines of a user for a product in the store, and the constraint
  \<open>UNIQUE(user_id, product_id)\<close> as a property of the table.
\<close>

definition lines_of :: "uuid \<Rightarrow> uuid \<Rightarrow> store \<Rightarrow> cart_items_row list" where
  "lines_of u p st =
     filter (\<lambda>r. cart_items_user_id r = u \<and> cart_items_product_id r = p) (cart_items st)"

definition unique_lines :: "store \<Rightarrow> bool" where
  "unique_lines st =
     distinct (map (\<lambda>r. (cart_items_user_id r, cart_items_product_id r)) (cart_items st))"

text \<open>
  The cart the screen holds agrees with its own lines: the aggregates are those of the
  items (spec 8: recomputed, not cached independently of line changes).
\<close>

definition cart_consistent :: "cart_context \<Rightarrow> bool" where
  "cart_consistent c =
     (totalItems c = sum_list (map quantity (items c)) \<and>
      totalPrice c =
        sum_list (map (\<lambda>i. of_int (quantity i) * products_price (product i)) (items c)))"

text \<open>
  Modelled from the spec: the reset of contexts/CartContext's \<open>clearCart\<close>. Spec 4.1:
  deletes all CartLine rows for the current user; on failure the in-memory state is
  unchanged and the error goes to the caller. Spec 2: after the cart clear the cart
  engine is reset, that is the in-memory cart is the empty one.
\<close>

definition empty_cart :: cart_context where
  "empty_cart = \<lparr>items = [], totalItems = 0, totalPrice = 0, loading = False\<rparr>"

text \<open>
  Modelled from the spec: \<open>clearCart\<close> of contexts/CartContext, as described above
  \<open>empty_cart\<close>. Spec 6: absence of an identity is a precondition failure.
\<close>

definition clearCart :: "faults \<Rightarrow> app \<Rightarrow> (error + unit) \<times> app" where
  "clearCart fl s =
     (case user s of
        None \<Rightarrow> (Inl No_identity, s)
      | Some u \<Rightarrow>
          (case delete_cart_items fl (Some u) (\<lambda>r. cart_items_user_id r = u) (store s) of
             (Inl e, st) \<Rightarrow> (Inl e, s\<lparr>store := st\<rparr>)
           | (Inr _, st) \<Rightarrow> (Inr (), s\<lparr>store := st, cart := empty_cart\<rparr>)))"

section \<open>Checkout (app/(tabs)/cart.tsx, handleCheckout)\<close>

text \<open>
  The alerts the screen shows, by title, and the two buttons of the confirmation dialog.
\<close>

datatype alert = Carrinho_Vazio | Finalizar_Compra | Sucesso | Erro

datatype button = Cancelar | Confirmar

text \<open>
  The body of the \<open>try\<close> block (lines 62-99). \<open>user!.id\<close> throws a TypeError when
  \<open>user\<close> is null, while the argument of the first insert is being built, that is before
  any request is sent. Each \<open>throw\<close> leaves the block with the error.
\<close>

definition checkout_try :: "faults \<Rightarrow> app \<Rightarrow> (error + unit) \<times> app" where
  "checkout_try fl s =
     (case user s of
        None \<Rightarrow> (Inl TypeError, s)
      | Some u \<Rightarrow>
          (case insert_orders fl (user s) (u, totalPrice (cart s), pending) (store s) of
             (Inl orderError, st1) \<Rightarrow> (Inl orderError, s\<lparr>store := st1\<rparr>)
           | (Inr ord, st1) \<Rightarrow>
               (let orderItems = map (\<lambda>item. (orders_id ord, product_id item, quantity item,
                                               products_price (product item)))
                                   (items (cart s))
                in case insert_order_items fl (user s) orderItems st1 of
                     (Inl itemsError, st2) \<Rightarrow> (Inl itemsError, s\<lparr>store := st2\<rparr>)
                   | (Inr _, st2) \<Rightarrow> clearCart fl (s\<lparr>store := st2\<rparr>))))"

text \<open>
  \<open>handleCheckout\<close> (lines 48-108): the result is the list of alerts shown, in order,
  and the state afterwards. \<open>pressed\<close> is the button the user chooses in the
  confirmation dialog. The \<open>catch\<close> logs the error and shows the alert \<open>Erro\<close>.
\<close>

definition handleCheckout :: "faults \<Rightarrow> button \<Rightarrow> app \<Rightarrow> alert list \<times> app" where
  "handleCheckout fl pressed s =
     (if length (items (cart s)) = 0 then ([Carrinho_Vazio], s)
      else (case pressed of
              Cancelar \<Rightarrow> ([Finalizar_Compra], s)
            | Confirmar \<Rightarrow>
                (case checkout_try fl s of
                   (Inl e, s') \<Rightarrow> ([Finalizar_Compra, Erro], s')
                 | (Inr _, s') \<Rightarrow> ([Finalizar_Compra, Sucesso], s'))))"

text \<open>
  The rows a checkout writes, named for the statements below: the Order row of the first
  insert (lines 64-74) for user \<open>u\<close>, and the rows of the second insert (lines 79-88),
  one per cart item, with identifiers counted from \<open>n\<close> and all referring to order
  \<open>oid\<close>.
\<close>

definition new_order :: "app \<Rightarrow> uuid \<Rightarrow> orders_row" where
  "new_order s u =
     \<lparr>orders_id = next_uuid (store s), orders_user_id = u,
      orders_total_amount = totalPrice (cart s), orders_status = pending\<rparr>"

definition new_lines :: "uuid \<Rightarrow> uuid \<Rightarrow> cart_item list \<Rightarrow> order_items_row list" where
  "new_lines n oid its =
     map (\<lambda>(j, item).
            \<lparr>order_items_id = j, order_items_order_id = oid,
             order_items_product_id = product_id item, order_items_quantity = quantity item,
             order_items_price = products_price (product item)\<rparr>)
       (enumerate n its)"

text \<open>
  The store after the first insert of a checkout, and after the second.
\<close>

definition order_placed :: "app \<Rightarrow> uuid \<Rightarrow> store" where
  "order_placed s u =
     (store s)\<lparr>received := received (store s) @ [(Orders, INSERT)],
               orders := orders (store s) @ [new_order s u],
               next_uuid := next_uuid (store s) + 1\<rparr>"

definition lines_placed :: "app \<Rightarrow> uuid \<Rightarrow> store" where
  "lines_placed s u =
     (store s)\<lparr>received := received (store s) @ [(Orders, INSERT), (Order_items, INSERT)],
               orders := orders (store s) @ [new_order s u],
               order_items := order_items (store s) @
                  new_lines (next_uuid (store s) + 1) (next_uuid (store s)) (items (cart s)),
               next_uuid := next_uuid (store s) + 1 + length (items (cart s))\<rparr>"

text \<open>\<open>handleUpdateQuantity\<close> (lines 29-31) hands its arguments to \<open>updateQuantity\<close>.\<close>

definition handleUpdateQuantity :: "faults \<Rightarrow> uuid \<Rightarrow> int \<Rightarrow> app \<Rightarrow> (error + unit) \<times> app" where
  "handleUpdateQuantity fl productId newQuantity s = updateQuantity fl productId newQuantity s"

section \<open>A concrete shop\<close>

text \<open>
  The scenario of spec 8: user 7 has product A (price 10.00, quantity 2) and product B
  (price 5.50, quantity 1) in the cart; the store will draw 100 as the next identifier.
\<close>

definition product_A :: products_row where
  "product_A = \<lparr>products_id = 1, products_name = ''A'', products_price = 10,
                 products_stock_quantity = 15\<rparr>"

definition product_B :: products_row where
  "product_B = \<lparr>products_id = 2, products_name = ''B'', products_price = 11 / 2,
                 products_stock_quantity = 20\<rparr>"

definition shop :: store where
  "shop = \<lparr>products = [product_A, product_B],
           cart_items =
             [\<lparr>cart_items_id = 10, cart_items_user_id = 7, cart_items_product_id = 1,
               cart_items_quantity = 2\<rparr>,
              \<lparr>cart_items_id = 11, cart_items_user_id = 7, cart_items_product_id = 2,
               cart_items_quantity = 1\<rparr>],
           orders = [], order_items = [], next_uuid = 100, received = []\<rparr>"

definition session :: app where
  "session = \<lparr>user = Some 7,
              cart = \<lparr>items = [\<lparr>item_id = 10, product_id = 1, quantity = 2, product = product_A\<rparr>,
                               \<lparr>item_id = 11, product_id = 2, quantity = 1, product = product_B\<rparr>],
                      totalItems = 3, totalPrice = 51 / 2, loading = False\<rparr>,
              store = shop\<rparr>"

definition no_faults :: faults where
  "no_faults = (\<lambda>t c. False)"

definition lines_fail :: faults where
  "lines_fail = (\<lambda>t c. t = Order_items \<and> c = INSERT)"

section \<open>Row level security and the requests\<close>

lemma permitted_cart_items:
  "permitted st uid c (Cart_items_row r) = (uid = Some (cart_items_user_id r))"
  by (cases c; cases uid) (auto simp: permitted_def policies_def role_of_def)

lemma permitted_orders:
  "permitted st uid c (Orders_row r) =
     ((c = SELECT \<or> c = INSERT) \<and> uid = Some (orders_user_id r))"
  by (cases c; cases uid) (auto simp: permitted_def policies_def role_of_def)

lemma permitted_order_items:
  "permitted st uid c (Order_items_row r) =
     ((c = SELECT \<or> c = INSERT) \<and>
      list_ex (\<lambda>ord. orders_id ord = order_items_order_id r \<and> Some (orders_user_id ord) = uid)
        (orders st))"
  by (cases c; cases uid) (auto simp: permitted_def policies_def role_of_def list_ex_iff)

lemma insert_orders_ok:
  "\<not> fl Orders INSERT \<Longrightarrow>
   insert_orders fl (Some u) (u, t, stat) st =
     (Inr \<lparr>orders_id = next_uuid st, orders_user_id = u, orders_total_amount = t,
           orders_status = stat\<rparr>,
      st\<lparr>received := received st @ [(Orders, INSERT)],
         orders := orders st @ [\<lparr>orders_id = next_uuid st, orders_user_id = u,
                                 orders_total_amount = t, orders_status = stat\<rparr>],
         next_uuid := next_uuid st + 1\<rparr>)"
  by (simp add: insert_orders_def request_def permitted_orders Let_def)

lemma insert_orders_fail:
  "fl Orders INSERT \<Longrightarrow>
   insert_orders fl uid new st = (Inl Request_failed, st\<lparr>received := received st @ [(Orders, INSERT)]\<rparr>)"
  by (simp add: insert_orders_def request_def Let_def)

lemma lines_rows:
  "map (\<lambda>(i, oid, pid, q, p).
          \<lparr>order_items_id = i, order_items_order_id = oid, order_items_product_id = pid,
           order_items_quantity = q, order_items_price = p\<rparr>)
     (enumerate n (map (\<lambda>item. (oid, product_id item, quantity item,
                                 products_price (product item))) its))
   = new_lines n oid its"
  by (induction its arbitrary: n) (simp_all add: new_lines_def)

lemma new_lines_order_id: "r \<in> set (new_lines n oid its) \<Longrightarrow> order_items_order_id r = oid"
  by (induction its arbitrary: n) (auto simp: new_lines_def)

lemma length_new_lines: "length (new_lines n oid its) = length its"
  by (simp add: new_lines_def)

lemma insert_order_items_fail:
  "fl Order_items INSERT \<Longrightarrow>
   insert_order_items fl uid news st =
     (Inl Request_failed, st\<lparr>received := received st @ [(Order_items, INSERT)]\<rparr>)"
  by (simp add: insert_order_items_def request_def Let_def)

lemma insert_order_items_ok:
  assumes "\<not> fl Order_items INSERT"
    and "list_ex (\<lambda>ord. orders_id ord = oid \<and> orders_user_id ord = u) (orders st)"
  shows "insert_order_items fl (Some u)
           (map (\<lambda>item. (oid, product_id item, quantity item, products_price (product item))) its) st
         = (Inr (), st\<lparr>received := received st @ [(Order_items, INSERT)],
                       order_items := order_items st @ new_lines (next_uuid st) oid its,
                       next_uuid := next_uuid st + length its\<rparr>)"
proof -
  have "list_all (\<lambda>r. permitted st (Some u) INSERT (Order_items_row r))
          (new_lines (next_uuid st) oid its)"
    using assms(2)
    by (auto simp: list_all_iff permitted_order_items new_lines_order_id list_ex_iff)
  then show ?thesis
    using assms(1)
    by (simp add: insert_order_items_def request_def Let_def lines_rows length_new_lines)
qed

lemma delete_own_cart_items:
  "delete_cart_items fl (Some u) (\<lambda>r. cart_items_user_id r = u) st =
     (if fl Cart_items DELETE
      then (Inl Request_failed, st\<lparr>received := received st @ [(Cart_items, DELETE)]\<rparr>)
      else (Inr (), st\<lparr>received := received st @ [(Cart_items, DELETE)],
                        cart_items := filter (\<lambda>r. cart_items_user_id r \<noteq> u) (cart_items st)\<rparr>))"
  by (simp add: delete_cart_items_def request_def Let_def permitted_cart_items)


lemma checkout_try_no_user: "user s = None \<Longrightarrow> checkout_try fl s = (Inl TypeError, s)"
  by (simp add: checkout_try_def)

lemma checkout_try_order_fails:
  "user s = Some u \<Longrightarrow> fl Orders INSERT \<Longrightarrow>
   checkout_try fl s =
     (Inl Request_failed, s\<lparr>store := (store s)\<lparr>received := received (store s) @ [(Orders, INSERT)]\<rparr>\<rparr>)"
  by (simp add: checkout_try_def insert_orders_fail)

lemma checkout_try_lines_fail:
  "user s = Some u \<Longrightarrow> \<not> fl Orders INSERT \<Longrightarrow> fl Order_items INSERT \<Longrightarrow>
   checkout_try fl s =
     (Inl Request_failed,
      s\<lparr>store := (order_placed s u)\<lparr>received := received (store s) @ [(Orders, INSERT), (Order_items, INSERT)]\<rparr>\<rparr>)"
  by (simp add: checkout_try_def insert_orders_ok insert_order_items_fail order_placed_def new_order_def)

lemma checkout_try_clear_fails:
  "user s = Some u \<Longrightarrow> \<not> fl Orders INSERT \<Longrightarrow> \<not> fl Order_items INSERT \<Longrightarrow> fl Cart_items DELETE \<Longrightarrow>
   checkout_try fl s =
     (Inl Request_failed,
      s\<lparr>store := (lines_placed s u)\<lparr>received := received (store s) @
                 [(Orders, INSERT), (Order_items, INSERT), (Cart_items, DELETE)]\<rparr>\<rparr>)"
  by (simp add: checkout_try_def insert_orders_ok insert_order_items_ok clearCart_def
      delete_own_cart_items lines_placed_def new_order_def)

lemma checkout_try_ok:
  "user s = Some u \<Longrightarrow> \<not> fl Orders INSERT \<Longrightarrow> \<not> fl Order_items INSERT \<Longrightarrow> \<not> fl Cart_items DELETE \<Longrightarrow>
   checkout_try fl s =
     (Inr (),
      s\<lparr>store := (lines_placed s u)\<lparr>received := received (store s) @
                 [(Orders, INSERT), (Order_items, INSERT), (Cart_items, DELETE)],
               cart_items := filter (\<lambda>r. cart_items_user_id r \<noteq> u) (cart_items (store s))\<rparr>,
        cart := empty_cart\<rparr>)"
  by (simp add: checkout_try_def insert_orders_ok insert_order_items_ok clearCart_def
      delete_own_cart_items lines_placed_def new_order_def)

section \<open>Checkout\<close>

lemma sent_between_self: "sent_between st st = []"
  by (simp add: sent_between_def)

lemma sent_between_append:
  "received st' = received st @ rs \<Longrightarrow> sent_between st st' = rs"
  by (simp add: sent_between_def)

lemma handleCheckout_empty:
  "items (cart s) = [] \<Longrightarrow> handleCheckout fl pressed s = ([Carrinho_Vazio], s)"
  by (simp add: handleCheckout_def)

lemma handleCheckout_cancel:
  "items (cart s) \<noteq> [] \<Longrightarrow> handleCheckout fl Cancelar s = ([Finalizar_Compra], s)"
  by (simp add: handleCheckout_def)

lemma handleCheckout_confirm:
  "items (cart s) \<noteq> [] \<Longrightarrow>
   handleCheckout fl Confirmar s =
     (case checkout_try fl s of
        (Inl e, s') \<Rightarrow> ([Finalizar_Compra, Erro], s')
      | (Inr x, s') \<Rightarrow> ([Finalizar_Compra, Sucesso], s'))"
  by (simp add: handleCheckout_def)

lemma session_facts:
  "user session = Some 7" "items (cart session) \<noteq> []" "store session = shop"
  "\<not> lines_fail Orders INSERT" "lines_fail Order_items INSERT"
  "\<not> no_faults t c"
  by (simp_all add: session_def lines_fail_def no_faults_def)

text \<open>
  Claim C3. When the cart is empty, \<open>handleCheckout\<close> reports the empty cart (the alert
  \<open>Carrinho Vazio\<close>, which is how this screen surfaces the error) and returns with the
  state as it was: it sends no request to the store, so nothing is written to
  \<open>orders\<close>, \<open>order_items\<close> or \<open>cart_items\<close>.
\<close>

theorem empty_cart_checkout:
  "items (cart s) = [] \<Longrightarrow>
   handleCheckout fl pressed s = ([Carrinho_Vazio], s) \<and>
   sent_between (store s) (store (snd (handleCheckout fl pressed s))) = []"
  by (simp add: handleCheckout_empty sent_between_self)

text \<open>
  The signed-in user of the concrete shop with an emptied cart presses the checkout
  button.
\<close>

theorem empty_cart_checkout_witness:
  "items (cart (session\<lparr>cart := empty_cart\<rparr>)) = [] \<and>
   handleCheckout no_faults Confirmar (session\<lparr>cart := empty_cart\<rparr>) =
     ([Carrinho_Vazio], session\<lparr>cart := empty_cart\<rparr>) \<and>
   sent_between (store (session\<lparr>cart := empty_cart\<rparr>))
     (store (snd (handleCheckout no_faults Confirmar (session\<lparr>cart := empty_cart\<rparr>)))) = []"
proof -
  have h: "items (cart (session\<lparr>cart := empty_cart\<rparr>)) = []"
    by (simp add: empty_cart_def)
  show ?thesis
    using h empty_cart_checkout [OF h, of no_faults Confirmar] by blast
qed

text \<open>
  Claim C1, as the code has it. When the insert into \<open>orders\<close> succeeds and the insert
  into \<open>order_items\<close> fails, \<open>handleCheckout\<close> shows the alert \<open>Erro\<close> and sends
  nothing after the failed insert: there is no compensating delete, the Order row just
  created stays in the store, and it has no lines.
\<close>

theorem lines_failure_leaves_order:
  assumes "user s = Some u" and "items (cart s) \<noteq> []"
    and "\<not> fl Orders INSERT" and "fl Order_items INSERT"
  shows "fst (handleCheckout fl Confirmar s) = [Finalizar_Compra, Erro] \<and>
         sent_between (store s) (store (snd (handleCheckout fl Confirmar s))) =
           [(Orders, INSERT), (Order_items, INSERT)] \<and>
         orders (store (snd (handleCheckout fl Confirmar s))) =
           orders (store s) @
           [\<lparr>orders_id = next_uuid (store s), orders_user_id = u,
             orders_total_amount = totalPrice (cart s), orders_status = pending\<rparr>] \<and>
         order_items (store (snd (handleCheckout fl Confirmar s))) = order_items (store s)"
  using assms
  by (simp add: handleCheckout_confirm checkout_try_lines_fail order_placed_def new_order_def
      sent_between_def)

text \<open>
  The concrete shop, with the insert of the order lines failing.
\<close>

theorem lines_failure_leaves_order_witness:
  "user session = Some 7 \<and> items (cart session) \<noteq> [] \<and>
   \<not> lines_fail Orders INSERT \<and> lines_fail Order_items INSERT \<and>
   fst (handleCheckout lines_fail Confirmar session) = [Finalizar_Compra, Erro] \<and>
   sent_between (store session) (store (snd (handleCheckout lines_fail Confirmar session))) =
     [(Orders, INSERT), (Order_items, INSERT)] \<and>
   orders (store (snd (handleCheckout lines_fail Confirmar session))) =
     orders (store session) @
     [\<lparr>orders_id = next_uuid (store session), orders_user_id = 7,
       orders_total_amount = totalPrice (cart session), orders_status = pending\<rparr>] \<and>
   order_items (store (snd (handleCheckout lines_fail Confirmar session))) =
     order_items (store session)"
proof -
  have h: "user session = Some 7" "items (cart session) \<noteq> []"
    "\<not> lines_fail Orders INSERT" "lines_fail Order_items INSERT"
    by (simp_all add: session_facts)
  show ?thesis
    using h lines_failure_leaves_order [of session 7 lines_fail] by blast
qed

text \<open>
  Claim C1 as stated fails: in the concrete shop, whose \<open>orders\<close> table is empty before,
  a checkout whose order lines cannot be inserted leaves the Order row 100 behind, and
  the only requests sent are the two inserts.
\<close>

theorem order_not_rolled_back:
  "fst (handleCheckout lines_fail Confirmar session) = [Finalizar_Compra, Erro] \<and>
   orders (store session) = [] \<and>
   orders (store (snd (handleCheckout lines_fail Confirmar session))) =
     [\<lparr>orders_id = 100, orders_user_id = 7, orders_total_amount = 51 / 2,
       orders_status = pending\<rparr>] \<and>
   order_items (store (snd (handleCheckout lines_fail Confirmar session))) = [] \<and>
   received (store (snd (handleCheckout lines_fail Confirmar session))) =
     [(Orders, INSERT), (Order_items, INSERT)]"
proof -
  have "checkout_try lines_fail session =
     (Inl Request_failed,
      session\<lparr>store := (order_placed session 7)\<lparr>received := received (store session) @
         [(Orders, INSERT), (Order_items, INSERT)]\<rparr>\<rparr>)"
    by (rule checkout_try_lines_fail) (simp_all add: session_facts)
  then show ?thesis
    by (simp add: handleCheckout_confirm session_facts order_placed_def new_order_def)
       (simp add: session_def shop_def)
qed

lemma handleCheckout_signed_in:
  assumes "user s = Some u" and "items (cart s) \<noteq> []"
  shows "handleCheckout fl Confirmar s =
     (if fl Orders INSERT
      then ([Finalizar_Compra, Erro],
            s\<lparr>store := (store s)\<lparr>received := received (store s) @ [(Orders, INSERT)]\<rparr>\<rparr>)
      else if fl Order_items INSERT
      then ([Finalizar_Compra, Erro],
            s\<lparr>store := (order_placed s u)\<lparr>received := received (store s) @
                       [(Orders, INSERT), (Order_items, INSERT)]\<rparr>\<rparr>)
      else if fl Cart_items DELETE
      then ([Finalizar_Compra, Erro],
            s\<lparr>store := (lines_placed s u)\<lparr>received := received (store s) @
                       [(Orders, INSERT), (Order_items, INSERT), (Cart_items, DELETE)]\<rparr>\<rparr>)
      else ([Finalizar_Compra, Sucesso],
            s\<lparr>store := (lines_placed s u)\<lparr>received := received (store s) @
                       [(Orders, INSERT), (Order_items, INSERT), (Cart_items, DELETE)],
                     cart_items := filter (\<lambda>r. cart_items_user_id r \<noteq> u)
                                     (cart_items (store s))\<rparr>,
              cart := empty_cart\<rparr>))"
  using assms
  by (simp add: handleCheckout_confirm checkout_try_order_fails checkout_try_lines_fail
      checkout_try_clear_fails checkout_try_ok)

lemma handleCheckout_signed_out:
  "user s = None \<Longrightarrow> items (cart s) \<noteq> [] \<Longrightarrow>
   handleCheckout fl Confirmar s = ([Finalizar_Compra, Erro], s)"
  by (simp add: handleCheckout_confirm checkout_try_no_user)

text \<open>
  Claim C2. Whatever the user presses and whatever fails: when nobody is signed in, or
  the insert into \<open>orders\<close> fails, or the insert into \<open>order_items\<close> fails, the
  rows of \<open>cart_items\<close> and the in-memory cart are as before and no delete on
  \<open>cart_items\<close> is sent. Conversely, a delete on \<open>cart_items\<close> is only ever sent
  as the third request, after both inserts, with the order lines of all cart items in
  the store.
\<close>

theorem failed_checkout_leaves_cart:
  "(user s = None \<or> fl Orders INSERT \<or> fl Order_items INSERT \<longrightarrow>
      cart_items (store (snd (handleCheckout fl pressed s))) = cart_items (store s) \<and>
      cart (snd (handleCheckout fl pressed s)) = cart s \<and>
      (Cart_items, DELETE) \<notin>
        set (sent_between (store s) (store (snd (handleCheckout fl pressed s))))) \<and>
   ((Cart_items, DELETE) \<in>
        set (sent_between (store s) (store (snd (handleCheckout fl pressed s)))) \<longrightarrow>
      sent_between (store s) (store (snd (handleCheckout fl pressed s))) =
        [(Orders, INSERT), (Order_items, INSERT), (Cart_items, DELETE)] \<and>
      order_items (store (snd (handleCheckout fl pressed s))) =
        order_items (store s) @
        new_lines (next_uuid (store s) + 1) (next_uuid (store s)) (items (cart s)))"
proof (cases "items (cart s) = []")
  case True
  then show ?thesis by (simp add: handleCheckout_empty sent_between_self)
next
  case nonempty: False
  show ?thesis
  proof (cases pressed)
    case Cancelar
    with nonempty show ?thesis by (simp add: handleCheckout_cancel sent_between_self)
  next
    case Confirmar
    show ?thesis
    proof (cases "user s")
      case None
      with nonempty Confirmar show ?thesis
        by (simp add: handleCheckout_signed_out sent_between_self)
    next
      case (Some u)
      with nonempty Confirmar show ?thesis
        by (simp add: handleCheckout_signed_in sent_between_def order_placed_def
            lines_placed_def)
    qed
  qed
qed

text \<open>
  In the concrete shop: the run whose order lines fail leaves the cart alone, and the
  run without faults does send the delete, after the lines are stored.
\<close>

theorem failed_checkout_leaves_cart_witness:
  "(user session = None \<or> lines_fail Orders INSERT \<or> lines_fail Order_items INSERT) \<and>
   cart_items (store (snd (handleCheckout lines_fail Confirmar session))) =
     cart_items (store session) \<and>
   cart (snd (handleCheckout lines_fail Confirmar session)) = cart session \<and>
   (Cart_items, DELETE) \<notin>
     set (sent_between (store session) (store (snd (handleCheckout lines_fail Confirmar session)))) \<and>
   (Cart_items, DELETE) \<in>
     set (sent_between (store session) (store (snd (handleCheckout no_faults Confirmar session)))) \<and>
   sent_between (store session) (store (snd (handleCheckout no_faults Confirmar session))) =
     [(Orders, INSERT), (Order_items, INSERT), (Cart_items, DELETE)] \<and>
   order_items (store (snd (handleCheckout no_faults Confirmar session))) =
     order_items (store session) @
     new_lines (next_uuid (store session) + 1) (next_uuid (store session)) (items (cart session))"
proof -
  have h: "lines_fail Order_items INSERT"
    by (simp add: session_facts)
  have "handleCheckout no_faults Confirmar session =
          ([Finalizar_Compra, Sucesso],
           session\<lparr>store := (lines_placed session 7)\<lparr>received := received (store session) @
                       [(Orders, INSERT), (Order_items, INSERT), (Cart_items, DELETE)],
                     cart_items := filter (\<lambda>r. cart_items_user_id r \<noteq> 7)
                                     (cart_items (store session))\<rparr>,
              cart := empty_cart\<rparr>)"
    using handleCheckout_signed_in [of session 7 no_faults]
    by (simp add: session_facts)
  then have d: "(Cart_items, DELETE) \<in>
     set (sent_between (store session) (store (snd (handleCheckout no_faults Confirmar session))))"
    by (simp add: sent_between_def)
  show ?thesis
    using h d failed_checkout_leaves_cart [of session lines_fail Confirmar]
      failed_checkout_leaves_cart [of session no_faults Confirmar]
    by blast
qed

lemma handleCheckout_outcomes:
  "(items (cart s) = [] \<and> handleCheckout fl pressed s = ([Carrinho_Vazio], s)) \<or>
   (items (cart s) \<noteq> [] \<and> pressed = Cancelar \<and> handleCheckout fl pressed s = ([Finalizar_Compra], s)) \<or>
   (items (cart s) \<noteq> [] \<and> pressed = Confirmar \<and> user s = None \<and>
      handleCheckout fl pressed s = ([Finalizar_Compra, Erro], s)) \<or>
   (items (cart s) \<noteq> [] \<and> pressed = Confirmar \<and> user s \<noteq> None \<and> fl Orders INSERT \<and>
      handleCheckout fl pressed s =
        ([Finalizar_Compra, Erro],
         s\<lparr>store := (store s)\<lparr>received := received (store s) @ [(Orders, INSERT)]\<rparr>\<rparr>)) \<or>
   (items (cart s) \<noteq> [] \<and> pressed = Confirmar \<and> user s \<noteq> None \<and> \<not> fl Orders INSERT \<and>
      fl Order_items INSERT \<and>
      handleCheckout fl pressed s =
        ([Finalizar_Compra, Erro],
         s\<lparr>store := (order_placed s (the (user s)))\<lparr>received := received (store s) @
                       [(Orders, INSERT), (Order_items, INSERT)]\<rparr>\<rparr>)) \<or>
   (items (cart s) \<noteq> [] \<and> pressed = Confirmar \<and> user s \<noteq> None \<and> \<not> fl Orders INSERT \<and>
      \<not> fl Order_items INSERT \<and> fl Cart_items DELETE \<and>
      handleCheckout fl pressed s =
        ([Finalizar_Compra, Erro],
         s\<lparr>store := (lines_placed s (the (user s)))\<lparr>received := received (store s) @
                       [(Orders, INSERT), (Order_items, INSERT), (Cart_items, DELETE)]\<rparr>\<rparr>)) \<or>
   (items (cart s) \<noteq> [] \<and> pressed = Confirmar \<and> user s \<noteq> None \<and> \<not> fl Orders INSERT \<and>
      \<not> fl Order_items INSERT \<and> \<not> fl Cart_items DELETE \<and>
      handleCheckout fl pressed s =
        ([Finalizar_Compra, Sucesso],
         s\<lparr>store := (lines_placed s (the (user s)))\<lparr>received := received (store s) @
                       [(Orders, INSERT), (Order_items, INSERT), (Cart_items, DELETE)],
                     cart_items := filter (\<lambda>r. cart_items_user_id r \<noteq> the (user s))
                                     (cart_items (store s))\<rparr>,
           cart := empty_cart\<rparr>))"
proof (cases "items (cart s) = []")
  case True
  then show ?thesis by (simp add: handleCheckout_empty)
next
  case nonempty: False
  show ?thesis
  proof (cases pressed)
    case Cancelar
    with nonempty show ?thesis by (simp add: handleCheckout_cancel)
  next
    case Confirmar
    show ?thesis
    proof (cases "user s")
      case None
      with nonempty Confirmar show ?thesis by (simp add: handleCheckout_signed_out)
    next
      case (Some u)
      with nonempty Confirmar show ?thesis by (simp add: handleCheckout_signed_in)
    qed
  qed
qed

lemma success_iff:
  "(fst (handleCheckout fl pressed s) = [Finalizar_Compra, Sucesso]) =
   (items (cart s) \<noteq> [] \<and> pressed = Confirmar \<and> user s \<noteq> None \<and> \<not> fl Orders INSERT \<and>
    \<not> fl Order_items INSERT \<and> \<not> fl Cart_items DELETE)"
  using handleCheckout_outcomes [of s fl pressed] by auto

lemma success_state:
  "fst (handleCheckout fl pressed s) = [Finalizar_Compra, Sucesso] \<Longrightarrow>
   snd (handleCheckout fl pressed s) =
     s\<lparr>store := (lines_placed s (the (user s)))\<lparr>received := received (store s) @
                       [(Orders, INSERT), (Order_items, INSERT), (Cart_items, DELETE)],
                     cart_items := filter (\<lambda>r. cart_items_user_id r \<noteq> the (user s))
                                     (cart_items (store s))\<rparr>,
           cart := empty_cart\<rparr>"
  using handleCheckout_outcomes [of s fl pressed] by auto

lemma handleCheckout_keeps_order_items:
  "take (length (order_items (store s))) (order_items (store (snd (handleCheckout fl pressed s))))
     = order_items (store s)"
  using handleCheckout_outcomes [of s fl pressed]
  by (auto simp: order_placed_def lines_placed_def)


lemma new_lines_nth:
  "i < length its \<Longrightarrow>
   new_lines n oid its ! i =
     \<lparr>order_items_id = n + i, order_items_order_id = oid,
      order_items_product_id = product_id (its ! i), order_items_quantity = quantity (its ! i),
      order_items_price = products_price (product (its ! i))\<rparr>"
  by (simp add: new_lines_def nth_enumerate_eq)

lemma new_lines_all_order: "list_all (\<lambda>r. order_items_order_id r = oid) (new_lines n oid its)"
  by (simp add: list_all_iff new_lines_order_id)

lemma new_lines_total:
  "sum_list (map (\<lambda>r. of_int (order_items_quantity r) * order_items_price r) (new_lines n oid its))
   = sum_list (map (\<lambda>i. of_int (quantity i) * products_price (product i)) its)"
  by (induction its arbitrary: n) (simp_all add: new_lines_def)

text \<open>
  Claim C4. For a signed-in user with a non-empty cart of N items, the checkout ends
  with the alert \<open>Sucesso\<close> exactly when the user confirms and none of the three
  requests fails. A successful checkout adds exactly one row to \<open>orders\<close>, with status
  \<open>pending\<close> and the cart's \<open>totalPrice\<close> as total; it adds exactly N rows to
  \<open>order_items\<close>, all of that order; and afterwards the user has no row in
  \<open>cart_items\<close> and the in-memory cart has no items.
\<close>

theorem successful_checkout:
  assumes "user s = Some u" and "items (cart s) \<noteq> []"
  shows "((fst (handleCheckout fl pressed s) = [Finalizar_Compra, Sucesso]) =
            (pressed = Confirmar \<and> \<not> fl Orders INSERT \<and> \<not> fl Order_items INSERT \<and>
             \<not> fl Cart_items DELETE)) \<and>
         (fst (handleCheckout fl pressed s) = [Finalizar_Compra, Sucesso] \<longrightarrow>
            orders (store (snd (handleCheckout fl pressed s))) =
              orders (store s) @
              [\<lparr>orders_id = next_uuid (store s), orders_user_id = u,
                orders_total_amount = totalPrice (cart s), orders_status = pending\<rparr>] \<and>
            order_items (store (snd (handleCheckout fl pressed s))) =
              order_items (store s) @
              new_lines (next_uuid (store s) + 1) (next_uuid (store s)) (items (cart s)) \<and>
            length (new_lines (next_uuid (store s) + 1) (next_uuid (store s)) (items (cart s))) =
              length (items (cart s)) \<and>
            list_all (\<lambda>r. order_items_order_id r = next_uuid (store s))
              (new_lines (next_uuid (store s) + 1) (next_uuid (store s)) (items (cart s))) \<and>
            filter (\<lambda>r. cart_items_user_id r = u)
              (cart_items (store (snd (handleCheckout fl pressed s)))) = [] \<and>
            items (cart (snd (handleCheckout fl pressed s))) = [])"
proof -
  have iff: "(fst (handleCheckout fl pressed s) = [Finalizar_Compra, Sucesso]) =
            (pressed = Confirmar \<and> \<not> fl Orders INSERT \<and> \<not> fl Order_items INSERT \<and>
             \<not> fl Cart_items DELETE)"
    using assms by (simp add: success_iff)
  have eff: "orders (store (snd (handleCheckout fl pressed s))) =
              orders (store s) @
              [\<lparr>orders_id = next_uuid (store s), orders_user_id = u,
                orders_total_amount = totalPrice (cart s), orders_status = pending\<rparr>] \<and>
            order_items (store (snd (handleCheckout fl pressed s))) =
              order_items (store s) @
              new_lines (next_uuid (store s) + 1) (next_uuid (store s)) (items (cart s)) \<and>
            filter (\<lambda>r. cart_items_user_id r = u)
              (cart_items (store (snd (handleCheckout fl pressed s)))) = [] \<and>
            items (cart (snd (handleCheckout fl pressed s))) = []"
    if "fst (handleCheckout fl pressed s) = [Finalizar_Compra, Sucesso]"
    using success_state [OF that] assms(1)
    by (simp add: lines_placed_def new_order_def empty_cart_def)
  show ?thesis
    using iff eff by (simp add: length_new_lines new_lines_all_order)
qed

text \<open>
  The scenario of spec 8: the order of 25.50 with the two lines (A, 2, 10.00) and
  (B, 1, 5.50), and the cart empty afterwards.
\<close>

theorem successful_checkout_witness:
  "user session = Some 7 \<and> items (cart session) \<noteq> [] \<and>
   fst (handleCheckout no_faults Confirmar session) = [Finalizar_Compra, Sucesso] \<and>
   orders (store (snd (handleCheckout no_faults Confirmar session))) =
     [\<lparr>orders_id = 100, orders_user_id = 7, orders_total_amount = 51 / 2,
       orders_status = pending\<rparr>] \<and>
   order_items (store (snd (handleCheckout no_faults Confirmar session))) =
     [\<lparr>order_items_id = 101, order_items_order_id = 100, order_items_product_id = 1,
       order_items_quantity = 2, order_items_price = 10\<rparr>,
      \<lparr>order_items_id = 102, order_items_order_id = 100, order_items_product_id = 2,
       order_items_quantity = 1, order_items_price = 11 / 2\<rparr>] \<and>
   filter (\<lambda>r. cart_items_user_id r = 7)
     (cart_items (store (snd (handleCheckout no_faults Confirmar session)))) = [] \<and>
   items (cart (snd (handleCheckout no_faults Confirmar session))) = []"
proof -
  have h: "user session = Some 7" "items (cart session) \<noteq> []"
    by (simp_all add: session_facts)
  have ok: "fst (handleCheckout no_faults Confirmar session) = [Finalizar_Compra, Sucesso]"
    using h successful_checkout [of session 7 no_faults Confirmar]
    by (simp add: no_faults_def)
  have "orders (store (snd (handleCheckout no_faults Confirmar session))) =
          orders (store session) @
          [\<lparr>orders_id = next_uuid (store session), orders_user_id = 7,
            orders_total_amount = totalPrice (cart session), orders_status = pending\<rparr>] \<and>
        order_items (store (snd (handleCheckout no_faults Confirmar session))) =
          order_items (store session) @
          new_lines (next_uuid (store session) + 1) (next_uuid (store session))
            (items (cart session)) \<and>
        filter (\<lambda>r. cart_items_user_id r = 7)
          (cart_items (store (snd (handleCheckout no_faults Confirmar session)))) = [] \<and>
        items (cart (snd (handleCheckout no_faults Confirmar session))) = []"
    using h ok successful_checkout [of session 7 no_faults Confirmar] by blast
  then show ?thesis
    using h ok
    by (simp add: session_def shop_def new_lines_def product_A_def product_B_def)
qed


lemma delete_orders_denied: "orders (snd (delete_orders fl uid cond st)) = orders st"
  by (simp add: delete_orders_def request_def Let_def permitted_orders)

lemma update_orders_denied: "orders (snd (update_orders fl uid cond patch st)) = orders st"
  by (simp add: update_orders_def request_def Let_def permitted_orders)

lemma delete_order_items_denied:
  "order_items (snd (delete_order_items fl uid cond st)) = order_items st"
  by (simp add: delete_order_items_def request_def Let_def permitted_order_items)

lemma update_order_items_denied:
  "order_items (snd (update_order_items fl uid cond patch st)) = order_items st"
  by (simp add: update_order_items_def request_def Let_def permitted_order_items)

lemma set_product_price_order_items:
  "order_items (set_product_price pid v st) = order_items st"
  by (simp add: set_product_price_def)

text \<open>
  Claim C5. After a successful checkout there is one new order line per cart item, in
  the order of the cart; the line of the i-th item has that item's product and quantity,
  and its price is the price the item's product carries in the cart at the checkout.
  The line keeps its own copy of the price: changing the live price of any product in
  \<open>products\<close> leaves \<open>order_items\<close> as it is, no update or delete a client sends
  changes \<open>order_items\<close> (no policy allows it), and any later checkout, from any
  state \<open>t\<close>, keeps the rows that are there and only appends.
\<close>

theorem order_lines_freeze_price:
  assumes "fst (handleCheckout fl pressed s) = [Finalizar_Compra, Sucesso]"
    and "i < length (items (cart s))"
  shows "length (order_items (store (snd (handleCheckout fl pressed s)))) =
           length (order_items (store s)) + length (items (cart s)) \<and>
         order_items_product_id
           (order_items (store (snd (handleCheckout fl pressed s))) !
              (length (order_items (store s)) + i)) = product_id (items (cart s) ! i) \<and>
         order_items_quantity
           (order_items (store (snd (handleCheckout fl pressed s))) !
              (length (order_items (store s)) + i)) = quantity (items (cart s) ! i) \<and>
         order_items_price
           (order_items (store (snd (handleCheckout fl pressed s))) !
              (length (order_items (store s)) + i)) =
           products_price (product (items (cart s) ! i)) \<and>
         order_items (set_product_price pid v (store (snd (handleCheckout fl pressed s)))) =
           order_items (store (snd (handleCheckout fl pressed s))) \<and>
         order_items (snd (update_order_items fl' uid cond patch
                             (store (snd (handleCheckout fl pressed s))))) =
           order_items (store (snd (handleCheckout fl pressed s))) \<and>
         order_items (snd (delete_order_items fl' uid cond
                             (store (snd (handleCheckout fl pressed s))))) =
           order_items (store (snd (handleCheckout fl pressed s))) \<and>
         take (length (order_items (store t)))
           (order_items (store (snd (handleCheckout fl' pressed' t)))) = order_items (store t)"
proof -
  have "order_items (store (snd (handleCheckout fl pressed s))) =
          order_items (store s) @
          new_lines (next_uuid (store s) + 1) (next_uuid (store s)) (items (cart s))"
    using success_state [OF assms(1)] by (simp add: lines_placed_def)
  then show ?thesis
    using assms(2)
    by (simp add: length_new_lines new_lines_nth set_product_price_order_items
        update_order_items_denied delete_order_items_denied handleCheckout_keeps_order_items)
qed

text \<open>
  The line of product B in the concrete shop, and a later change of B's live price to
  99.
\<close>

theorem order_lines_freeze_price_witness:
  "fst (handleCheckout no_faults Confirmar session) = [Finalizar_Compra, Sucesso] \<and>
   (1::nat) < length (items (cart session)) \<and>
   order_items_quantity
     (order_items (store (snd (handleCheckout no_faults Confirmar session))) ! 1) = 1 \<and>
   order_items_price
     (order_items (store (snd (handleCheckout no_faults Confirmar session))) ! 1) = 11 / 2 \<and>
   order_items (set_product_price 2 99 (store (snd (handleCheckout no_faults Confirmar session)))) =
     order_items (store (snd (handleCheckout no_faults Confirmar session)))"
proof -
  have ok: "fst (handleCheckout no_faults Confirmar session) = [Finalizar_Compra, Sucesso]"
    by (simp add: success_iff session_facts)
  have i: "(1::nat) < length (items (cart session))"
    by (simp add: session_def)
  have v: "length (order_items (store session)) + 1 = 1"
    "quantity (items (cart session) ! 1) = 1"
    "products_price (product (items (cart session) ! 1)) = 11 / 2"
    by (simp_all add: session_def shop_def product_B_def)
  show ?thesis
    using ok i order_lines_freeze_price [OF ok i, of 2 99] v by metis
qed


lemma filter_new_lines: "filter (\<lambda>r. order_items_order_id r = oid) (new_lines n oid its) = new_lines n oid its"
  by (simp add: filter_id_conv new_lines_order_id)

lemma unused_filter:
  "next_uuid_unused st \<Longrightarrow> filter (\<lambda>r. order_items_order_id r = next_uuid st) (order_items st) = []"
  by (simp add: next_uuid_unused_def list_all_iff filter_empty_conv)

text \<open>
  Claim C6, as the code has it. When both inserts of a checkout succeed, the new Order's
  \<open>total_amount\<close> is the sum of quantity times recorded price over the order lines
  that refer to it. The total is the \<open>totalPrice\<close> the cart engine supplies, so the
  cart must agree with its own lines (\<open>cart_consistent\<close>, which is what the spec
  says of the engine), and the Order's identifier must be fresh.
\<close>

theorem order_total_is_sum_of_lines:
  assumes "user s = Some u" and "items (cart s) \<noteq> []"
    and "\<not> fl Orders INSERT" and "\<not> fl Order_items INSERT"
    and "cart_consistent (cart s)" and "next_uuid_unused (store s)"
  shows "orders (store (snd (handleCheckout fl Confirmar s))) =
           orders (store s) @ [new_order s u] \<and>
         orders_total_amount (new_order s u) =
           order_lines_total (store (snd (handleCheckout fl Confirmar s)))
             (orders_id (new_order s u))"
proof -
  have st: "orders (store (snd (handleCheckout fl Confirmar s))) = orders (store s) @ [new_order s u]"
    "order_items (store (snd (handleCheckout fl Confirmar s))) =
       order_items (store s) @
       new_lines (next_uuid (store s) + 1) (next_uuid (store s)) (items (cart s))"
    using assms(1-4) by (simp_all add: handleCheckout_signed_in lines_placed_def)
  have "orders_total_amount (new_order s u) =
          sum_list (map (\<lambda>i. of_int (quantity i) * products_price (product i)) (items (cart s)))"
    using assms(5) by (simp add: new_order_def cart_consistent_def)
  also have "\<dots> = sum_list (map (\<lambda>r. of_int (order_items_quantity r) * order_items_price r)
                      (new_lines (next_uuid (store s) + 1) (next_uuid (store s)) (items (cart s))))"
    by (simp only: new_lines_total)
  also have "new_lines (next_uuid (store s) + 1) (next_uuid (store s)) (items (cart s)) =
               filter (\<lambda>r. order_items_order_id r = orders_id (new_order s u))
                 (order_items (store (snd (handleCheckout fl Confirmar s))))"
    using assms(6) by (simp add: st new_order_def unused_filter filter_new_lines)
  finally show ?thesis using st(1) by (simp add: order_lines_total_def)
qed

text \<open>
  The concrete shop: 2 * 10.00 + 1 * 5.50 = 25.50.
\<close>

theorem order_total_is_sum_of_lines_witness:
  "user session = Some 7 \<and> items (cart session) \<noteq> [] \<and>
   \<not> no_faults Orders INSERT \<and> \<not> no_faults Order_items INSERT \<and>
   cart_consistent (cart session) \<and> next_uuid_unused (store session) \<and>
   orders (store (snd (handleCheckout no_faults Confirmar session))) =
     orders (store session) @ [new_order session 7] \<and>
   orders_total_amount (new_order session 7) =
     order_lines_total (store (snd (handleCheckout no_faults Confirmar session)))
       (orders_id (new_order session 7)) \<and>
   orders_total_amount (new_order session 7) = 51 / 2"
proof -
  have h: "user session = Some 7" "items (cart session) \<noteq> []"
    "\<not> no_faults Orders INSERT" "\<not> no_faults Order_items INSERT"
    "cart_consistent (cart session)" "next_uuid_unused (store session)"
    by (simp_all add: session_def shop_def no_faults_def cart_consistent_def
        next_uuid_unused_def product_A_def product_B_def)
  have v: "orders_total_amount (new_order session 7) = 51 / 2"
    by (simp add: new_order_def session_def)
  show ?thesis
    using h v order_total_is_sum_of_lines [of session 7 no_faults] by blast
qed

text \<open>
  Claim C6 as stated fails for an Order whose lines could not be inserted: in the
  concrete shop, whose cart agrees with its lines, Order 100 is created with the total
  25.50 and stays with no lines, whose sum is 0.
\<close>

theorem orphan_order_total:
  "cart_consistent (cart session) \<and> next_uuid_unused (store session) \<and>
   orders (store (snd (handleCheckout lines_fail Confirmar session))) =
     [\<lparr>orders_id = 100, orders_user_id = 7, orders_total_amount = 51 / 2,
       orders_status = pending\<rparr>] \<and>
   order_lines_total (store (snd (handleCheckout lines_fail Confirmar session))) 100 = 0"
proof -
  have "handleCheckout lines_fail Confirmar session =
     ([Finalizar_Compra, Erro],
      session\<lparr>store := (order_placed session 7)\<lparr>received := received (store session) @
         [(Orders, INSERT), (Order_items, INSERT)]\<rparr>\<rparr>)"
    using handleCheckout_signed_in [of session 7 lines_fail]
    by (simp add: session_facts)
  then show ?thesis
    by (simp add: order_placed_def new_order_def order_lines_total_def)
       (simp add: session_def shop_def cart_consistent_def next_uuid_unused_def
          product_A_def product_B_def)
qed

section \<open>Access policies and identity\<close>

lemma policies_on_orders:
  "map policy_command (filter (\<lambda>p. policy_table p = Orders) policies) = [SELECT, INSERT]"
  "map policy_command (filter (\<lambda>p. policy_table p = Order_items) policies) = [SELECT, INSERT]"
  by (simp_all add: policies_def)

text \<open>
  Claim C10. The policies on \<open>orders\<close> and on \<open>order_items\<close> are one for SELECT and
  one for INSERT, nothing else. So a signed-in user may select and insert own orders
  and nothing more; no session is permitted an UPDATE or a DELETE on a row of either
  table; and whatever filter and patch a client sends, a delete or an update on
  \<open>orders\<close> or \<open>order_items\<close> leaves the table as it is. In particular a client-side
  delete of an orphaned Order removes nothing.
\<close>

theorem orders_are_insert_only:
  "map policy_command (filter (\<lambda>p. policy_table p = Orders) policies) = [SELECT, INSERT] \<and>
   map policy_command (filter (\<lambda>p. policy_table p = Order_items) policies) = [SELECT, INSERT] \<and>
   permitted st (Some u) c (Orders_row r) = ((c = SELECT \<or> c = INSERT) \<and> orders_user_id r = u) \<and>
   \<not> permitted st uid UPDATE (Orders_row r) \<and> \<not> permitted st uid DELETE (Orders_row r) \<and>
   \<not> permitted st uid UPDATE (Order_items_row l) \<and>
   \<not> permitted st uid DELETE (Order_items_row l) \<and>
   orders (snd (delete_orders fl uid cond st)) = orders st \<and>
   orders (snd (update_orders fl uid cond patch st)) = orders st \<and>
   order_items (snd (delete_order_items fl uid cond' st)) = order_items st \<and>
   order_items (snd (update_order_items fl uid cond' patch' st)) = order_items st"
  by (auto simp add: policies_on_orders permitted_orders permitted_order_items delete_orders_denied
      update_orders_denied delete_order_items_denied update_order_items_denied)

text \<open>
  The orphaned Order 100 of the concrete shop: its owner's delete request is answered
  without an error and the row is still there.
\<close>

theorem orders_are_insert_only_witness:
  "orders (store (snd (handleCheckout lines_fail Confirmar session))) =
     [\<lparr>orders_id = 100, orders_user_id = 7, orders_total_amount = 51 / 2,
       orders_status = pending\<rparr>] \<and>
   orders (snd (delete_orders no_faults (Some 7) (\<lambda>r. orders_id r = 100)
                  (store (snd (handleCheckout lines_fail Confirmar session))))) =
     [\<lparr>orders_id = 100, orders_user_id = 7, orders_total_amount = 51 / 2,
       orders_status = pending\<rparr>] \<and>
   fst (delete_orders no_faults (Some 7) (\<lambda>r. orders_id r = 100)
          (store (snd (handleCheckout lines_fail Confirmar session)))) = Inr ()"
proof -
  have "handleCheckout lines_fail Confirmar session =
     ([Finalizar_Compra, Erro],
      session\<lparr>store := (order_placed session 7)\<lparr>received := received (store session) @
         [(Orders, INSERT), (Order_items, INSERT)]\<rparr>\<rparr>)"
    using handleCheckout_signed_in [of session 7 lines_fail]
    by (simp add: session_facts)
  then have o: "orders (store (snd (handleCheckout lines_fail Confirmar session))) =
     [\<lparr>orders_id = 100, orders_user_id = 7, orders_total_amount = 51 / 2,
       orders_status = pending\<rparr>]"
    by (simp add: order_placed_def new_order_def) (simp add: session_def shop_def)
  have r: "fst (delete_orders no_faults (Some 7) (\<lambda>r. orders_id r = 100)
          (store (snd (handleCheckout lines_fail Confirmar session)))) = Inr ()"
    by (simp add: delete_orders_def no_faults_def Let_def)
  show ?thesis
    using o r orders_are_insert_only
        [where st = "store (snd (handleCheckout lines_fail Confirmar session))"
           and uid = "Some 7" and fl = no_faults and cond = "\<lambda>r. orders_id r = 100"]
    by simp
qed

lemma cart_operations_signed_out:
  assumes "user s = None"
  shows "addToCart fl p q s = (Inl No_identity, s)"
    and "removeFromCart fl p s = (Inl No_identity, s)"
    and "updateQuantity fl p n s = (Inl No_identity, s)"
    and "clearCart fl s = (Inl No_identity, s)"
    and "loadCart fl s = (Inl LoadError, s)"
  using assms
  by (simp_all add: addToCart_def removeFromCart_def updateQuantity_def clearCart_def loadCart_def)

text \<open>
  Claim C9. When nobody is signed in, no operation writes: \<open>handleCheckout\<close> leaves the
  state as it is and sends no request, never reports success, and once confirmed ends
  with an error alert (\<open>user!.id\<close> throws before the first request is sent; on an
  empty cart the empty-cart alert comes first). The cart operations of the engine fail
  with an error and leave the state as it is.
\<close>

theorem no_identity_no_writes:
  assumes "user s = None"
  shows "snd (handleCheckout fl pressed s) = s \<and>
         sent_between (store s) (store (snd (handleCheckout fl pressed s))) = [] \<and>
         fst (handleCheckout fl pressed s) \<noteq> [Finalizar_Compra, Sucesso] \<and>
         (pressed = Confirmar \<longrightarrow>
            fst (handleCheckout fl pressed s) =
              (if items (cart s) = [] then [Carrinho_Vazio] else [Finalizar_Compra, Erro])) \<and>
         addToCart fl p q s = (Inl No_identity, s) \<and>
         handleUpdateQuantity fl p n s = (Inl No_identity, s) \<and>
         removeFromCart fl p s = (Inl No_identity, s) \<and>
         clearCart fl s = (Inl No_identity, s) \<and>
         loadCart fl s = (Inl LoadError, s)"
proof -
  have "snd (handleCheckout fl pressed s) = s \<and>
        fst (handleCheckout fl pressed s) \<noteq> [Finalizar_Compra, Sucesso] \<and>
         (pressed = Confirmar \<longrightarrow>
            fst (handleCheckout fl pressed s) =
              (if items (cart s) = [] then [Carrinho_Vazio] else [Finalizar_Compra, Erro]))"
    using assms handleCheckout_outcomes [of s fl pressed] by auto
  then show ?thesis
    using assms
    by (simp add: cart_operations_signed_out handleUpdateQuantity_def sent_between_self)
qed

text \<open>
  The concrete shop with nobody signed in.
\<close>

theorem no_identity_no_writes_witness:
  "user (session\<lparr>user := None\<rparr>) = None \<and>
   handleCheckout no_faults Confirmar (session\<lparr>user := None\<rparr>) =
     ([Finalizar_Compra, Erro], session\<lparr>user := None\<rparr>) \<and>
   addToCart no_faults 1 1 (session\<lparr>user := None\<rparr>) = (Inl No_identity, session\<lparr>user := None\<rparr>)"
proof -
  have h: "user (session\<lparr>user := None\<rparr>) = None"
    by simp
  have i: "items (cart (session\<lparr>user := None\<rparr>)) \<noteq> []"
    by (simp add: session_def)
  have "snd (handleCheckout no_faults Confirmar (session\<lparr>user := None\<rparr>)) = session\<lparr>user := None\<rparr>"
    "fst (handleCheckout no_faults Confirmar (session\<lparr>user := None\<rparr>)) = [Finalizar_Compra, Erro]"
    "addToCart no_faults 1 1 (session\<lparr>user := None\<rparr>) = (Inl No_identity, session\<lparr>user := None\<rparr>)"
    using i no_identity_no_writes [OF h, of no_faults Confirmar 1 1] by simp_all
  then show ?thesis
    using h by (simp add: prod_eq_iff)
qed

section \<open>Cart engine\<close>

lemma select_lines:
  "\<not> fl Cart_items SELECT \<Longrightarrow>
   select_cart_items fl (Some u)
     (\<lambda>r. cart_items_user_id r = u \<and> cart_items_product_id r = p) st =
     (Inr (lines_of u p st), st\<lparr>received := received st @ [(Cart_items, SELECT)]\<rparr>)"
  by (simp add: select_cart_items_def request_def Let_def permitted_cart_items lines_of_def
      cong: conj_cong)

lemma loadCart_ok:
  assumes "user s = Some u" and "\<not> fl Cart_items SELECT"
  shows "fst (loadCart fl s) = Inr ()"
    and "user (snd (loadCart fl s)) = Some u"
    and "cart_items (store (snd (loadCart fl s))) = cart_items (store s)"
  using assms
  by (simp_all add: loadCart_def select_cart_items_def request_def Let_def)

lemma refresh_after_ok:
  assumes "user s = Some u" and "\<not> fl Cart_items SELECT"
  shows "fst (refresh_after fl (Inr x, st) s) = Inr ()"
    and "user (snd (refresh_after fl (Inr x, st) s)) = Some u"
    and "cart_items (store (snd (refresh_after fl (Inr x, st) s))) = cart_items st"
  using assms loadCart_ok [of "s\<lparr>store := st\<rparr>" u fl]
  by (simp_all add: refresh_after_def)

lemma insert_line_ok:
  assumes "\<not> fl Cart_items INSERT" and "lines_of u p st = []"
  shows "insert_cart_items fl (Some u) (u, p, q) st =
     (Inr (), st\<lparr>received := received st @ [(Cart_items, INSERT)],
                  cart_items := cart_items st @
                    [\<lparr>cart_items_id = next_uuid st, cart_items_user_id = u,
                      cart_items_product_id = p, cart_items_quantity = q\<rparr>],
                  next_uuid := next_uuid st + 1\<rparr>)"
proof -
  have "\<not> list_ex (\<lambda>x. cart_items_user_id x = u \<and> cart_items_product_id x = p) (cart_items st)"
    using assms(2) by (simp add: lines_of_def list_ex_iff filter_empty_conv)
  then show ?thesis
    using assms(1)
    by (simp add: insert_cart_items_def request_def Let_def permitted_cart_items)
qed

lemma update_line_ok:
  "\<not> fl Cart_items UPDATE \<Longrightarrow>
   update_cart_items fl (Some u)
     (\<lambda>x. cart_items_user_id x = u \<and> cart_items_product_id x = p) q st =
     (Inr (), st\<lparr>received := received st @ [(Cart_items, UPDATE)],
                  cart_items :=
                    map (\<lambda>r. if cart_items_user_id r = u \<and> cart_items_product_id r = p
                             then r\<lparr>cart_items_quantity := q\<rparr> else r) (cart_items st)\<rparr>)"
  by (simp add: update_cart_items_def request_def Let_def permitted_cart_items cong: conj_cong)

lemma delete_line_ok:
  "\<not> fl Cart_items DELETE \<Longrightarrow>
   delete_cart_items fl (Some u)
     (\<lambda>r. cart_items_user_id r = u \<and> cart_items_product_id r = p) st =
     (Inr (), st\<lparr>received := received st @ [(Cart_items, DELETE)],
                  cart_items :=
                    filter (\<lambda>r. \<not> (cart_items_user_id r = u \<and> cart_items_product_id r = p))
                      (cart_items st)\<rparr>)"
  by (simp add: delete_cart_items_def request_def Let_def permitted_cart_items cong: conj_cong)

lemma distinct_keys_filter:
  "distinct (map f xs) \<Longrightarrow> filter (\<lambda>x. f x = k) xs = [] \<or> (\<exists>r. filter (\<lambda>x. f x = k) xs = [r])"
proof (induction xs)
  case Nil
  then show ?case by simp
next
  case (Cons x xs)
  show ?case
  proof (cases "f x = k")
    case True
    from Cons.prems have "f x \<notin> f ` set xs"
      by simp
    with True have "\<forall>y\<in>set xs. f y \<noteq> k"
      by (metis imageI)
    then have "filter (\<lambda>y. f y = k) xs = []"
      by (simp add: filter_empty_conv)
    with True show ?thesis by simp
  next
    case False
    with Cons show ?thesis by simp
  qed
qed

lemma lines_of_key:
  "lines_of u p st =
     filter (\<lambda>r. (cart_items_user_id r, cart_items_product_id r) = (u, p)) (cart_items st)"
  by (simp add: lines_of_def)

lemma unique_lines_one:
  "unique_lines st \<Longrightarrow> lines_of u p st = [] \<or> (\<exists>r. lines_of u p st = [r])"
  unfolding unique_lines_def lines_of_key by (rule distinct_keys_filter)

lemma addToCart_new:
  assumes "user s = Some u" and "0 < q" and "lines_of u p (store s) = []"
    and "\<not> fl Cart_items SELECT" and "\<not> fl Cart_items INSERT"
  shows "fst (addToCart fl p q s) = Inr ()"
    and "user (snd (addToCart fl p q s)) = Some u"
    and "cart_items (store (snd (addToCart fl p q s))) =
           cart_items (store s) @
           [\<lparr>cart_items_id = next_uuid (store s), cart_items_user_id = u,
             cart_items_product_id = p, cart_items_quantity = q\<rparr>]"
proof -
  have l: "lines_of u p (store s\<lparr>received := received (store s) @ [(Cart_items, SELECT)]\<rparr>) = []"
    using assms(3) by (simp add: lines_of_def)
  have "addToCart fl p q s =
      refresh_after fl
        (insert_cart_items fl (Some u) (u, p, q)
           ((store s)\<lparr>received := received (store s) @ [(Cart_items, SELECT)]\<rparr>)) s"
    using assms by (simp add: addToCart_def select_lines)
  then show "fst (addToCart fl p q s) = Inr ()"
    and "user (snd (addToCart fl p q s)) = Some u"
    and "cart_items (store (snd (addToCart fl p q s))) =
           cart_items (store s) @
           [\<lparr>cart_items_id = next_uuid (store s), cart_items_user_id = u,
             cart_items_product_id = p, cart_items_quantity = q\<rparr>]"
    using assms(1,4,5) by (simp_all add: insert_line_ok [OF _ l] refresh_after_ok)
qed

lemma addToCart_existing:
  assumes "user s = Some u" and "0 < q" and "lines_of u p (store s) = r # rs"
    and "\<not> fl Cart_items SELECT" and "\<not> fl Cart_items UPDATE"
  shows "fst (addToCart fl p q s) = Inr ()"
    and "user (snd (addToCart fl p q s)) = Some u"
    and "cart_items (store (snd (addToCart fl p q s))) =
           map (\<lambda>x. if cart_items_user_id x = u \<and> cart_items_product_id x = p
                    then x\<lparr>cart_items_quantity := cart_items_quantity r + q\<rparr> else x)
             (cart_items (store s))"
proof -
  have "addToCart fl p q s =
      refresh_after fl
        (update_cart_items fl (Some u)
           (\<lambda>x. cart_items_user_id x = u \<and> cart_items_product_id x = p)
           (cart_items_quantity r + q)
           ((store s)\<lparr>received := received (store s) @ [(Cart_items, SELECT)]\<rparr>)) s"
    using assms by (simp add: addToCart_def select_lines)
  then show "fst (addToCart fl p q s) = Inr ()"
    and "user (snd (addToCart fl p q s)) = Some u"
    and "cart_items (store (snd (addToCart fl p q s))) =
           map (\<lambda>x. if cart_items_user_id x = u \<and> cart_items_product_id x = p
                    then x\<lparr>cart_items_quantity := cart_items_quantity r + q\<rparr> else x)
             (cart_items (store s))"
    using assms(1,4,5) by (simp_all add: update_line_ok refresh_after_ok)
qed


lemma lines_of_append:
  "cart_items st' = cart_items st @ [r] \<Longrightarrow>
   lines_of u p st' =
     lines_of u p st @ (if cart_items_user_id r = u \<and> cart_items_product_id r = p then [r] else [])"
  by (simp add: lines_of_def)

lemma filter_updated_lines:
  "filter (\<lambda>r. cart_items_user_id r = u \<and> cart_items_product_id r = p)
     (map (\<lambda>x. if cart_items_user_id x = u \<and> cart_items_product_id x = p
               then x\<lparr>cart_items_quantity := q\<rparr> else x) xs) =
   map (\<lambda>x. x\<lparr>cart_items_quantity := q\<rparr>)
     (filter (\<lambda>r. cart_items_user_id r = u \<and> cart_items_product_id r = p) xs)"
  by (induction xs) auto

lemma lines_of_update:
  "cart_items st' =
     map (\<lambda>x. if cart_items_user_id x = u \<and> cart_items_product_id x = p
              then x\<lparr>cart_items_quantity := q\<rparr> else x) (cart_items st) \<Longrightarrow>
   lines_of u p st' = map (\<lambda>x. x\<lparr>cart_items_quantity := q\<rparr>) (lines_of u p st)"
  by (simp add: lines_of_def filter_updated_lines)

lemma unique_lines_update:
  "cart_items st' =
     map (\<lambda>x. if c x then x\<lparr>cart_items_quantity := q\<rparr> else x) (cart_items st) \<Longrightarrow>
   unique_lines st' = unique_lines st"
  by (simp add: unique_lines_def o_def if_distrib cong: if_cong)

lemma unique_lines_append:
  "cart_items st' = cart_items st @ [r] \<Longrightarrow>
   lines_of (cart_items_user_id r) (cart_items_product_id r) st = [] \<Longrightarrow>
   unique_lines st \<Longrightarrow> unique_lines st'"
  by (auto simp: unique_lines_def lines_of_def filter_empty_conv)

lemma addToCart_step:
  assumes "user s = Some u" and "0 < q" and "unique_lines (store s)"
    and "\<not> fl Cart_items SELECT" and "\<not> fl Cart_items INSERT" and "\<not> fl Cart_items UPDATE"
  shows "fst (addToCart fl p q s) = Inr () \<and>
         user (snd (addToCart fl p q s)) = Some u \<and>
         unique_lines (store (snd (addToCart fl p q s))) \<and>
         map cart_items_quantity (lines_of u p (store (snd (addToCart fl p q s)))) =
           [sum_list (map cart_items_quantity (lines_of u p (store s))) + q]"
proof (cases "lines_of u p (store s)")
  case Nil
  note new = addToCart_new [where fl = fl, OF assms(1,2) Nil assms(4,5)]
  have "unique_lines (store (snd (addToCart fl p q s)))"
    using unique_lines_append [OF new(3)] Nil assms(3) by simp
  then show ?thesis
    using new(1,2) lines_of_append [OF new(3), of u p] Nil by simp
next
  case (Cons r rs)
  with unique_lines_one [OF assms(3), of u p] have one: "lines_of u p (store s) = [r]"
    by simp
  note upd = addToCart_existing [where fl = fl, OF assms(1,2) Cons assms(4,6)]
  have "unique_lines (store (snd (addToCart fl p q s)))"
    using unique_lines_update [OF upd(3)] assms(3) by simp
  then show ?thesis
    using upd(1,2) lines_of_update [OF upd(3)] one by simp
qed

lemma addToCart_all_sum:
  assumes "user s = Some u" and "unique_lines (store s)" and "list_all (\<lambda>q. 0 < q) qs"
    and "\<not> fl Cart_items SELECT" and "\<not> fl Cart_items INSERT" and "\<not> fl Cart_items UPDATE"
  shows "fst (addToCart_all fl p qs s) = Inr () \<and>
         user (snd (addToCart_all fl p qs s)) = Some u \<and>
         unique_lines (store (snd (addToCart_all fl p qs s))) \<and>
         (qs \<noteq> [] \<longrightarrow>
            map cart_items_quantity (lines_of u p (store (snd (addToCart_all fl p qs s)))) =
              [sum_list (map cart_items_quantity (lines_of u p (store s))) + sum_list qs])"
  using assms(1-3)
proof (induction qs arbitrary: s)
  case Nil
  then show ?case by simp
next
  case (Cons q qs)
  obtain res s1 where a: "addToCart fl p q s = (res, s1)"
    by (cases "addToCart fl p q s")
  have step: "res = Inr ()" "user s1 = Some u" "unique_lines (store s1)"
    "map cart_items_quantity (lines_of u p (store s1)) =
       [sum_list (map cart_items_quantity (lines_of u p (store s))) + q]"
    using addToCart_step [where fl = fl and q = q and p = p, OF Cons.prems(1) _ Cons.prems(2) assms(4-6)]
      Cons.prems(3) a
    by simp_all
  have rest: "addToCart_all fl p (q # qs) s = addToCart_all fl p qs s1"
    using a step(1) by simp
  have ih: "fst (addToCart_all fl p qs s1) = Inr () \<and>
         user (snd (addToCart_all fl p qs s1)) = Some u \<and>
         unique_lines (store (snd (addToCart_all fl p qs s1))) \<and>
         (qs \<noteq> [] \<longrightarrow>
            map cart_items_quantity (lines_of u p (store (snd (addToCart_all fl p qs s1)))) =
              [sum_list (map cart_items_quantity (lines_of u p (store s1))) + sum_list qs])"
    using Cons.IH [OF step(2,3)] Cons.prems(3) by simp
  show ?case
  proof (cases "qs = []")
    case True
    then show ?thesis using rest step by simp
  next
    case False
    then show ?thesis using rest ih step(4) by simp
  qed
qed

text \<open>
  Claim C7. Whatever the cart table holds (under its constraint of one row per user and
  product), after any non-empty sequence of \<open>addToCart\<close> calls of a signed-in user
  for one product, with positive quantities and the store answering, every call has
  succeeded, the table still has one row per user and product, and it has exactly one
  line for this user and product, whose quantity is what was there before plus the sum
  of the quantities passed; when the product was not in the cart before, exactly that
  sum. A product already present is incremented, never duplicated.
\<close>

theorem addToCart_one_line_with_sum:
  assumes "user s = Some u" and "unique_lines (store s)"
    and "qs \<noteq> []" and "list_all (\<lambda>q. 0 < q) qs"
    and "\<not> fl Cart_items SELECT" and "\<not> fl Cart_items INSERT" and "\<not> fl Cart_items UPDATE"
  shows "fst (addToCart_all fl p qs s) = Inr () \<and>
         unique_lines (store (snd (addToCart_all fl p qs s))) \<and>
         map cart_items_quantity (lines_of u p (store (snd (addToCart_all fl p qs s)))) =
           [sum_list (map cart_items_quantity (lines_of u p (store s))) + sum_list qs] \<and>
         (lines_of u p (store s) = [] \<longrightarrow>
            map cart_items_quantity (lines_of u p (store (snd (addToCart_all fl p qs s)))) =
              [sum_list qs])"
  using addToCart_all_sum [where fl = fl and p = p, OF assms(1,2,4-7)] assms(3) by simp

text \<open>
  The scenario of spec 8: \<open>addToCart(X, 1)\<close> then \<open>addToCart(X, 2)\<close>, for a product
  3 that is not in the cart, gives one line of quantity 3.
\<close>

theorem addToCart_one_line_with_sum_witness:
  "user session = Some 7 \<and> unique_lines (store session) \<and> [1, 2] \<noteq> ([] :: int list) \<and>
   list_all (\<lambda>q. 0 < q) [1, 2 :: int] \<and>
   \<not> no_faults Cart_items SELECT \<and> \<not> no_faults Cart_items INSERT \<and>
   \<not> no_faults Cart_items UPDATE \<and>
   lines_of 7 3 (store session) = [] \<and>
   fst (addToCart_all no_faults 3 [1, 2] session) = Inr () \<and>
   map cart_items_quantity (lines_of 7 3 (store (snd (addToCart_all no_faults 3 [1, 2] session)))) = [3]"
proof -
  have h: "user session = Some 7" "unique_lines (store session)" "[1, 2] \<noteq> ([] :: int list)"
    "list_all (\<lambda>q. 0 < q) [1, 2 :: int]"
    "\<not> no_faults Cart_items SELECT" "\<not> no_faults Cart_items INSERT"
    "\<not> no_faults Cart_items UPDATE"
    by (simp_all add: session_def shop_def unique_lines_def no_faults_def)
  have l: "lines_of 7 3 (store session) = []"
    by (simp add: session_def shop_def lines_of_def)
  show ?thesis
    using h l addToCart_one_line_with_sum [of session 7 "[1, 2]" no_faults 3]
    by simp
qed


lemma removeFromCart_ok:
  assumes "user s = Some u" and "\<not> fl Cart_items DELETE" and "\<not> fl Cart_items SELECT"
  shows "fst (removeFromCart fl p s) = Inr ()"
    and "cart_items (store (snd (removeFromCart fl p s))) =
           filter (\<lambda>r. \<not> (cart_items_user_id r = u \<and> cart_items_product_id r = p))
             (cart_items (store s))"
  using assms by (simp_all add: removeFromCart_def delete_line_ok refresh_after_ok)

lemma updateQuantity_existing:
  assumes "user s = Some u" and "0 < n" and "lines_of u p (store s) \<noteq> []"
    and "\<not> fl Cart_items SELECT" and "\<not> fl Cart_items UPDATE"
  shows "fst (updateQuantity fl p n s) = Inr ()"
    and "cart_items (store (snd (updateQuantity fl p n s))) =
           map (\<lambda>x. if cart_items_user_id x = u \<and> cart_items_product_id x = p
                    then x\<lparr>cart_items_quantity := n\<rparr> else x)
             (cart_items (store s))"
proof -
  obtain r rs where l: "lines_of u p (store s) = r # rs"
    using assms(3) by (cases "lines_of u p (store s)") auto
  have "updateQuantity fl p n s =
      refresh_after fl
        (update_cart_items fl (Some u)
           (\<lambda>x. cart_items_user_id x = u \<and> cart_items_product_id x = p) n
           ((store s)\<lparr>received := received (store s) @ [(Cart_items, SELECT)]\<rparr>)) s"
    using assms(1,2,4) l by (simp add: updateQuantity_def select_lines)
  then show "fst (updateQuantity fl p n s) = Inr ()"
    and "cart_items (store (snd (updateQuantity fl p n s))) =
           map (\<lambda>x. if cart_items_user_id x = u \<and> cart_items_product_id x = p
                    then x\<lparr>cart_items_quantity := n\<rparr> else x)
             (cart_items (store s))"
    using assms(1,4,5) by (simp_all add: update_line_ok refresh_after_ok)
qed

lemma updateQuantity_missing:
  assumes "user s = Some u" and "0 < n" and "lines_of u p (store s) = []"
    and "\<not> fl Cart_items SELECT"
  shows "fst (updateQuantity fl p n s) = Inl NotFoundError"
    and "cart_items (store (snd (updateQuantity fl p n s))) = cart_items (store s)"
  using assms by (simp_all add: updateQuantity_def select_lines)

text \<open>
  Claim C8. For a new quantity of zero or less, \<open>handleUpdateQuantity\<close> and
  \<open>updateQuantity\<close> are \<open>removeFromCart\<close>, in every state and under every fault: same
  answer, same state; for a signed-in user and an answering store the line of the
  product is gone and the other rows are as before. For a positive new quantity the
  line of the product gets that quantity and the other rows are as before; when there
  is no such line the answer is \<open>NotFoundError\<close> and the rows are unchanged.
\<close>

theorem updateQuantity_removes_or_sets:
  assumes "user s = Some u"
    and "\<not> fl Cart_items SELECT" and "\<not> fl Cart_items UPDATE" and "\<not> fl Cart_items DELETE"
  shows "(n \<le> 0 \<longrightarrow>
            handleUpdateQuantity fl' p n t = removeFromCart fl' p t \<and>
            updateQuantity fl' p n t = removeFromCart fl' p t \<and>
            fst (handleUpdateQuantity fl p n s) = Inr () \<and>
            cart_items (store (snd (handleUpdateQuantity fl p n s))) =
              filter (\<lambda>r. \<not> (cart_items_user_id r = u \<and> cart_items_product_id r = p))
                (cart_items (store s))) \<and>
         (0 < n \<and> lines_of u p (store s) \<noteq> [] \<longrightarrow>
            fst (handleUpdateQuantity fl p n s) = Inr () \<and>
            cart_items (store (snd (handleUpdateQuantity fl p n s))) =
              map (\<lambda>x. if cart_items_user_id x = u \<and> cart_items_product_id x = p
                       then x\<lparr>cart_items_quantity := n\<rparr> else x)
                (cart_items (store s))) \<and>
         (0 < n \<and> lines_of u p (store s) = [] \<longrightarrow>
            fst (handleUpdateQuantity fl p n s) = Inl NotFoundError \<and>
            cart_items (store (snd (handleUpdateQuantity fl p n s))) = cart_items (store s))"
proof -
  have a: "handleUpdateQuantity fl' p n t = removeFromCart fl' p t"
    "updateQuantity fl' p n t = removeFromCart fl' p t"
    "handleUpdateQuantity fl p n s = removeFromCart fl p s" if "n \<le> 0"
    using that by (simp_all add: handleUpdateQuantity_def updateQuantity_def)
  show ?thesis
    using a removeFromCart_ok [where fl = fl and p = p, OF assms(1,4,2)]
      updateQuantity_existing [where fl = fl and p = p and n = n, OF assms(1) _ _ assms(2,3)]
      updateQuantity_missing [where fl = fl and p = p and n = n, OF assms(1) _ _ assms(2)]
    by (simp add: handleUpdateQuantity_def)
qed

text \<open>
  In the concrete shop: setting product 1 to 0 or to -1 removes its line, setting it to
  3 changes the quantity of its line.
\<close>

theorem updateQuantity_removes_or_sets_witness:
  "user session = Some 7 \<and>
   \<not> no_faults Cart_items SELECT \<and> \<not> no_faults Cart_items UPDATE \<and>
   \<not> no_faults Cart_items DELETE \<and>
   handleUpdateQuantity no_faults 1 0 session = removeFromCart no_faults 1 session \<and>
   cart_items (store (snd (handleUpdateQuantity no_faults 1 0 session))) =
     [\<lparr>cart_items_id = 11, cart_items_user_id = 7, cart_items_product_id = 2,
       cart_items_quantity = 1\<rparr>] \<and>
   cart_items (store (snd (handleUpdateQuantity no_faults 1 (- 1) session))) =
     [\<lparr>cart_items_id = 11, cart_items_user_id = 7, cart_items_product_id = 2,
       cart_items_quantity = 1\<rparr>] \<and>
   cart_items (store (snd (handleUpdateQuantity no_faults 1 3 session))) =
     [\<lparr>cart_items_id = 10, cart_items_user_id = 7, cart_items_product_id = 1,
       cart_items_quantity = 3\<rparr>,
      \<lparr>cart_items_id = 11, cart_items_user_id = 7, cart_items_product_id = 2,
       cart_items_quantity = 1\<rparr>]"
proof -
  have h: "user session = Some 7" "\<not> no_faults Cart_items SELECT"
    "\<not> no_faults Cart_items UPDATE" "\<not> no_faults Cart_items DELETE"
    by (simp_all add: session_facts)
  have l: "lines_of 7 1 (store session) \<noteq> []"
    by (simp add: session_def shop_def lines_of_def)
  have c: "cart_items (store session) =
     [\<lparr>cart_items_id = 10, cart_items_user_id = 7, cart_items_product_id = 1,
       cart_items_quantity = 2\<rparr>,
      \<lparr>cart_items_id = 11, cart_items_user_id = 7, cart_items_product_id = 2,
       cart_items_quantity = 1\<rparr>]"
    by (simp add: session_def shop_def)
  have n: "(0::int) \<le> 0" "(- 1::int) \<le> 0" "(0::int) < 3"
    by simp_all
  have z: "handleUpdateQuantity no_faults 1 0 session = removeFromCart no_faults 1 session"
    "cart_items (store (snd (handleUpdateQuantity no_faults 1 0 session))) =
       filter (\<lambda>r. \<not> (cart_items_user_id r = 7 \<and> cart_items_product_id r = 1))
         (cart_items (store session))"
    using h n(1) updateQuantity_removes_or_sets [where s = session and u = 7 and fl = no_faults
        and p = 1 and n = 0 and fl' = no_faults and t = session]
    by blast+
  have m: "cart_items (store (snd (handleUpdateQuantity no_faults 1 (- 1) session))) =
       filter (\<lambda>r. \<not> (cart_items_user_id r = 7 \<and> cart_items_product_id r = 1))
         (cart_items (store session))"
    using h n(2) updateQuantity_removes_or_sets [where s = session and u = 7 and fl = no_faults
        and p = 1 and n = "- 1"]
    by blast
  have t: "cart_items (store (snd (handleUpdateQuantity no_faults 1 3 session))) =
       map (\<lambda>x. if cart_items_user_id x = 7 \<and> cart_items_product_id x = 1
                then x\<lparr>cart_items_quantity := 3\<rparr> else x)
         (cart_items (store session))"
    using h l n(3) updateQuantity_removes_or_sets [where s = session and u = 7 and fl = no_faults
        and p = 1 and n = 3]
    by blast
  have v: "filter (\<lambda>r. \<not> (cart_items_user_id r = 7 \<and> cart_items_product_id r = 1))
         (cart_items (store session)) =
       [\<lparr>cart_items_id = 11, cart_items_user_id = 7, cart_items_product_id = 2,
         cart_items_quantity = 1\<rparr>]"
    "map (\<lambda>x. if cart_items_user_id x = 7 \<and> cart_items_product_id x = 1
                then x\<lparr>cart_items_quantity := 3\<rparr> else x)
         (cart_items (store session)) =
       [\<lparr>cart_items_id = 10, cart_items_user_id = 7, cart_items_product_id = 1,
         cart_items_quantity = 3\<rparr>,
        \<lparr>cart_items_id = 11, cart_items_user_id = 7, cart_items_product_id = 2,
         cart_items_quantity = 1\<rparr>]"
    by (simp_all add: c)
  show ?thesis
    using h z(1) z(2) [unfolded v] m [unfolded v] t [unfolded v] by blast
qed

text \<open>
  Every cart the engine produces agrees with its own lines, and every operation keeps a
  cart that does.
\<close>

lemma cart_of_consistent: "cart_consistent (cart_of its)"
  by (simp add: cart_consistent_def cart_of_def)

lemma empty_cart_consistent: "cart_consistent empty_cart"
  by (simp add: cart_consistent_def empty_cart_def)

lemma loadCart_consistent:
  "cart_consistent (cart s) \<Longrightarrow> cart_consistent (cart (snd (loadCart fl s)))"
  by (auto simp: loadCart_def cart_of_consistent split: option.splits prod.splits sum.splits)

lemma refresh_after_consistent:
  "cart_consistent (cart s) \<Longrightarrow> cart_consistent (cart (snd (refresh_after fl res s)))"
  using loadCart_consistent [of "s\<lparr>store := snd res\<rparr>" fl]
  by (auto simp: refresh_after_def split: prod.splits sum.splits)

lemma engine_keeps_cart_consistent:
  assumes "cart_consistent (cart s)"
  shows "cart_consistent (cart (snd (addToCart fl p q s)))"
    and "cart_consistent (cart (snd (removeFromCart fl p s)))"
    and "cart_consistent (cart (snd (updateQuantity fl p n s)))"
    and "cart_consistent (cart (snd (clearCart fl s)))"
proof -
  show "cart_consistent (cart (snd (addToCart fl p q s)))"
    using assms
    by (auto simp: addToCart_def refresh_after_consistent
        split: option.splits prod.splits sum.splits list.splits)
  show r: "cart_consistent (cart (snd (removeFromCart fl p s)))" for p
    using assms
    by (auto simp: removeFromCart_def refresh_after_consistent split: option.splits)
  show "cart_consistent (cart (snd (updateQuantity fl p n s)))"
    using assms r
    by (auto simp: updateQuantity_def refresh_after_consistent
        split: option.splits prod.splits sum.splits list.splits)
  show "cart_consistent (cart (snd (clearCart fl s)))"
    using assms
    by (auto simp: clearCart_def empty_cart_consistent
        split: option.splits prod.splits sum.splits)
qed

end
